theory Spec2Isabelle
  imports Main
begin

section \<open>JavaScript values\<close>

text \<open>
  The values a configuration module, a tool-call argument object or a result row can
  hold. Numbers are integers here (zod's number schema rejects NaN, and no operation of
  the program computes with them); strings are lists of 8-bit characters. An object is
  its list of own properties in insertion order.
\<close>

datatype jsval =
    JUndefined
  | JNull
  | JBool bool
  | JNum int
  | JStr string
  | JArr "jsval list"
  | JObj "(string \<times> jsval) list"

text \<open>Truthiness, as \<open>!x\<close>, \<open>x || y\<close> and \<open>if (x)\<close> read a value.\<close>

fun truthy :: "jsval \<Rightarrow> bool" where
  "truthy JUndefined = False"
| "truthy JNull = False"
| "truthy (JBool b) = b"
| "truthy (JNum n) = (n \<noteq> 0)"
| "truthy (JStr s) = (s \<noteq> [])"
| "truthy (JArr xs) = True"
| "truthy (JObj ps) = True"

text \<open>Property access \<open>v.k\<close> on a value that is not \<open>undefined\<close> or \<open>null\<close>.\<close>

fun get_prop :: "jsval \<Rightarrow> string \<Rightarrow> jsval" where
  "get_prop (JObj ps) k = (case map_of ps k of None \<Rightarrow> JUndefined | Some v \<Rightarrow> v)"
| "get_prop v k = JUndefined"

text \<open>An optional string (\<open>string | undefined\<close>) is truthy when present and not empty.\<close>

fun truthy_str :: "string option \<Rightarrow> bool" where
  "truthy_str None = False"
| "truthy_str (Some s) = (s \<noteq> [])"

fun join :: "string \<Rightarrow> string list \<Rightarrow> string" where
  "join sep [] = []"
| "join sep [x] = x"
| "join sep (x # y # ys) = x @ sep @ join sep (y # ys)"

section \<open>The configuration schema (config.js)\<close>

record DbCredentials =
  url :: "string option"
  host :: "string option"
  port :: "int option"
  user :: "string option"
  password :: "string option"
  database :: "string option"

text \<open>
  \<open>DrizzleConfig = z.infer<typeof DrizzleConfigSchema>\<close>: the typed fields, and the
  properties the schema does not name, which \<open>.passthrough()\<close> keeps.
\<close>

record DrizzleConfig =
  out :: "string option"
  schema :: "(string + string list) option"
  dialect :: string
  dbCredentials :: DbCredentials
  passthrough :: "(string \<times> jsval) list"

type_synonym issue = "string list \<times> string"

text \<open>The name zod gives the type of a rejected input in its message.\<close>

fun received :: "jsval \<Rightarrow> string" where
  "received JUndefined = ''undefined''"
| "received JNull = ''null''"
| "received (JBool b) = ''boolean''"
| "received (JNum n) = ''number''"
| "received (JStr s) = ''string''"
| "received (JArr xs) = ''array''"
| "received (JObj ps) = ''object''"

definition expected :: "string \<Rightarrow> jsval \<Rightarrow> string" where
  "expected ty v = ''Invalid input: expected '' @ ty @ '', received '' @ received v"

text \<open>
  The schema combinators of the zod library, as far as \<open>DrizzleConfigSchema\<close> uses them.
  A parser takes the path of the value and the value, and returns the issues found or
  the parsed value. An object schema parses every field and reports the issues of all of
  them, in the order of the schema's keys.
\<close>

definition z_string :: "string list \<Rightarrow> jsval \<Rightarrow> issue list + string" where
  "z_string p v = (case v of JStr s \<Rightarrow> Inr s | _ \<Rightarrow> Inl [(p, expected ''string'' v)])"

definition z_number :: "string list \<Rightarrow> jsval \<Rightarrow> issue list + int" where
  "z_number p v = (case v of JNum n \<Rightarrow> Inr n | _ \<Rightarrow> Inl [(p, expected ''number'' v)])"

definition z_optional ::
  "(string list \<Rightarrow> jsval \<Rightarrow> issue list + 'a) \<Rightarrow> string list \<Rightarrow> jsval \<Rightarrow> issue list + 'a option" where
  "z_optional f p v =
     (if v = JUndefined then Inr None
      else (case f p v of Inl is \<Rightarrow> Inl is | Inr a \<Rightarrow> Inr (Some a)))"

fun z_string_array_items :: "string list \<Rightarrow> jsval list \<Rightarrow> string list option" where
  "z_string_array_items p [] = Some []"
| "z_string_array_items p (x # xs) =
     (case z_string p x of
        Inl is \<Rightarrow> None
      | Inr s \<Rightarrow> (case z_string_array_items p xs of None \<Rightarrow> None | Some ss \<Rightarrow> Some (s # ss)))"

text \<open>\<open>z.string().or(z.array(z.string()))\<close>: a union reports one issue when no member accepts.\<close>

definition z_string_or_array :: "string list \<Rightarrow> jsval \<Rightarrow> issue list + (string + string list)" where
  "z_string_or_array p v =
     (case v of
        JStr s \<Rightarrow> Inr (Inl s)
      | JArr xs \<Rightarrow> (case z_string_array_items p xs of
                     Some ss \<Rightarrow> Inr (Inr ss)
                   | None \<Rightarrow> Inl [(p, ''Invalid input'')])
      | _ \<Rightarrow> Inl [(p, ''Invalid input'')])"

text \<open>Applying a record constructor to one more parsed field, collecting issues.\<close>

definition z_field :: "(issue list + ('a \<Rightarrow> 'b)) \<Rightarrow> (issue list + 'a) \<Rightarrow> issue list + 'b" where
  "z_field rf ra =
     (case rf of
        Inl e1 \<Rightarrow> (case ra of Inl e2 \<Rightarrow> Inl (e1 @ e2) | Inr a \<Rightarrow> Inl e1)
      | Inr f \<Rightarrow> (case ra of Inl e2 \<Rightarrow> Inl e2 | Inr a \<Rightarrow> Inr (f a)))"

definition mk_DbCredentials ::
  "string option \<Rightarrow> string option \<Rightarrow> int option \<Rightarrow> string option \<Rightarrow> string option \<Rightarrow>
   string option \<Rightarrow> DbCredentials" where
  "mk_DbCredentials u h p us pw d =
     \<lparr>url = u, host = h, port = p, user = us, password = pw, database = d\<rparr>"

text \<open>
  The \<open>dbCredentials\<close> object schema (config.js, lines 57 to 64 of the file): six optional
  fields, unknown keys dropped.
\<close>

definition DbCredentialsSchema :: "string list \<Rightarrow> jsval \<Rightarrow> issue list + DbCredentials" where
  "DbCredentialsSchema p v =
     (case v of
        JObj ps \<Rightarrow>
          z_field (z_field (z_field (z_field (z_field (z_field (Inr mk_DbCredentials)
            (z_optional z_string (p @ [''url'']) (get_prop v ''url'')))
            (z_optional z_string (p @ [''host'']) (get_prop v ''host'')))
            (z_optional z_number (p @ [''port'']) (get_prop v ''port'')))
            (z_optional z_string (p @ [''user'']) (get_prop v ''user'')))
            (z_optional z_string (p @ [''password'']) (get_prop v ''password'')))
            (z_optional z_string (p @ [''database'']) (get_prop v ''database''))
      | _ \<Rightarrow> Inl [(p, expected ''object'' v)])"

definition mk_DrizzleConfig ::
  "(string \<times> jsval) list \<Rightarrow> string option \<Rightarrow> (string + string list) option \<Rightarrow> string \<Rightarrow>
   DbCredentials \<Rightarrow> DrizzleConfig" where
  "mk_DrizzleConfig rest ou sc di cr =
     \<lparr>out = ou, schema = sc, dialect = di, dbCredentials = cr, passthrough = rest\<rparr>"

definition schema_keys :: "string list" where
  "schema_keys = [''out'', ''schema'', ''dialect'', ''dbCredentials'']"

text \<open>
  \<open>DrizzleConfigSchema.parse\<close>: \<open>dialect\<close> is any string, \<open>dbCredentials\<close> any object whose
  named fields have the right types; nothing relates the dialect to the credentials.
\<close>

definition DrizzleConfigSchema :: "jsval \<Rightarrow> issue list + DrizzleConfig" where
  "DrizzleConfigSchema v =
     (case v of
        JObj ps \<Rightarrow>
          z_field (z_field (z_field (z_field
            (Inr (mk_DrizzleConfig (filter (\<lambda>kv. fst kv \<notin> set schema_keys) ps)))
            (z_optional z_string [''out''] (get_prop v ''out'')))
            (z_optional z_string_or_array [''schema''] (get_prop v ''schema'')))
            (z_string [''dialect''] (get_prop v ''dialect'')))
            (DbCredentialsSchema [''dbCredentials''] (get_prop v ''dbCredentials''))
      | _ \<Rightarrow> Inl [([], expected ''object'' v)])"

section \<open>Errors\<close>

text \<open>
  Every \<open>throw new Error(...)\<close> of the sources is one constructor, carrying the values its
  message interpolates; \<open>DriverError\<close> and \<open>TypeError\<close> are the exceptions raised by a
  database driver and by the JavaScript runtime. Three handlers put the message of the
  error they catch into a new one, so the caught error is an argument.
\<close>

datatype error =
    ConfigNotFound string
  | NoConfigFound
  | ConfigInvalid "issue list"
  | ConfigLoadFailed string
  | NoConfigLoaded
  | UnsupportedDialect string
  | MissingCredential string
  | ProjectImportFailed string string string
  | DriverUnavailableSqlite
  | DriverUnavailablePg string error
  | NotInitialized
  | UnknownPgClient
  | NotImplemented string "string option"
  | DriverError string
  | TypeError string
  | SubprocessFailure string
  | ValidationError string
  | UnknownTool string
  | UnknownResource string "string list"
  | ReadResourceFailed string error
  | InitializeFailed error

definition show_issue :: "issue \<Rightarrow> string" where
  "show_issue i = join ''.'' (fst i) @ '': '' @ snd i"

definition sq :: "string \<Rightarrow> string" where
  "sq s = [CHR 0x27] @ s @ [CHR 0x27]"

fun message :: "error \<Rightarrow> string" where
  "message (ConfigNotFound p) = ''Drizzle config file not found at: '' @ p"
| "message NoConfigFound =
     ''No drizzle config file found. Please specify a config path or create drizzle.config.ts''"
| "message (ConfigInvalid is) = ''Invalid Drizzle config file: '' @ join '', '' (map show_issue is)"
| "message (ConfigLoadFailed m) = ''Failed to load config file: '' @ m"
| "message NoConfigLoaded = ''No config loaded. Call loadConfig() first.''"
| "message (UnsupportedDialect d) =
     ''Database dialect '' @ sq d @ '' is not supported. Supported dialects: sqlite, postgresql''"
| "message (MissingCredential d) =
     (if d = ''sqlite'' then ''Database URL is required in config.dbCredentials.url for SQLite''
      else ''For PostgreSQL, either provide '' @ sq ''url'' @ '' or '' @ sq ''host'' @ '', '' @
           sq ''user'' @ '', and '' @ sq ''database'' @ '' in config.dbCredentials'')"
| "message (ProjectImportFailed m root why) =
     ''Failed to import '' @ m @ '' from project root '' @ root @ '': '' @ why"
| "message DriverUnavailableSqlite =
     ''better-sqlite3 is required for SQLite databases. Install it with: npm install better-sqlite3''"
| "message (DriverUnavailablePg root e) =
     ''Either '' @ sq ''postgres'' @ '' or '' @ sq ''pg'' @
     '' is required for PostgreSQL databases. Install one with: '' @
     ''npm install postgres OR npm install pg. Project root: '' @ root @ ''. PG Error: '' @
     message e"
| "message NotInitialized = ''Database not initialized. Call initialize() first.''"
| "message UnknownPgClient = ''Unknown PostgreSQL client type''"
| "message (NotImplemented what d) =
     what @ '' not implemented for dialect: '' @ (case d of None \<Rightarrow> ''undefined'' | Some x \<Rightarrow> x)"
| "message (DriverError m) = m"
| "message (TypeError m) = m"
| "message (SubprocessFailure m) = m"
| "message (ValidationError m) = m"
| "message (UnknownTool n) = ''Unknown tool: '' @ n"
| "message (UnknownResource u avail) =
     ''Unknown resource URI: '' @ u @ ''. Available resources: '' @ join '', '' avail"
| "message (ReadResourceFailed u e) = ''Failed to read resource '' @ sq u @ '': '' @ message e"
| "message (InitializeFailed e) = ''Failed to initialize database: '' @ message e"

section \<open>The world outside the process\<close>

text \<open>
  The file system, the module loader, the database drivers, the database and the shell
  are not code of this repository. The program sees them through a few calls; the world
  gives the answer of each and records, in \<open>trace\<close>, the calls the program makes: file
  checks, imports, client constructions, statements handed to a driver for execution,
  closings and subprocesses.
  \<^item> \<open>existsSync p\<close>: whether a file is at \<open>p\<close>;
  \<^item> \<open>import_url u\<close>: the module namespace object of a dynamic \<open>import(u)\<close>, or the message
    of the error it throws;
  \<^item> \<open>import_failure root m\<close>: the message of the error that resolving and importing
    module \<open>m\<close> from the project at \<open>root\<close> throws, \<open>None\<close> when it loads;
  \<^item> \<open>construct_failure d s\<close>: the message of the error that constructing a client of
    driver \<open>d\<close> for the file or connection string \<open>s\<close> throws, \<open>None\<close> when it succeeds;
  \<^item> \<open>sql_compile db q\<close>: the message of the error that preparing statement \<open>q\<close> throws, or
    whether the prepared statement returns data (has result columns);
  \<^item> \<open>sql_run db q ps\<close>: the message of the error that executing \<open>q\<close> with the arguments
    \<open>ps\<close> throws in better-sqlite3, or its result rows and the database after it;
  \<^item> \<open>pg_run db q v\<close>: the same for the two PostgreSQL drivers, which are handed the
    \<open>params\<close> value \<open>v\<close> as it is;
  \<^item> \<open>close_failure d\<close>: the message of the error that closing a client of driver \<open>d\<close>
    throws, \<open>None\<close> when it closes;
  \<^item> \<open>coerce_gt_zero v\<close>: what the JavaScript runtime makes of \<open>v > 0\<close> for a string, an
    array or an object \<open>v\<close>, which it first converts to a number: the truth value, or the
    message of the TypeError the conversion throws;
  \<^item> \<open>exec c d\<close>: the message of the error of running shell command \<open>c\<close> in directory
    \<open>d\<close>, or its standard output and standard error.
\<close>

datatype driver = BetterSqlite3 | PostgresJs | NodePg

datatype event =
    EvExists string
  | EvImport string
  | EvProjectImport string
  | EvConstruct driver string
  | EvQuery driver string "jsval list"
  | EvPgQuery driver string jsval
  | EvListTables driver
  | EvDumpSchema driver
  | EvClose driver string
  | EvExec string string

type_synonym row = "(string \<times> jsval) list"

text \<open>
  The connected database: the rows of \<open>sqlite_master\<close> as (type, name, sql), the rows
  of \<open>pg_tables\<close> as (schemaname, tablename), and the rows of each table.
\<close>

record database =
  sqlite_master :: "(string \<times> string \<times> string) list"
  pg_tables :: "(string \<times> string) list"
  table_rows :: "(string \<times> row list) list"

record world =
  existsSync :: "string \<Rightarrow> bool"
  import_url :: "string \<Rightarrow> string + jsval"
  import_failure :: "string \<Rightarrow> string \<Rightarrow> string option"
  construct_failure :: "driver \<Rightarrow> string \<Rightarrow> string option"
  sql_compile :: "database \<Rightarrow> string \<Rightarrow> string + bool"
  sql_run :: "database \<Rightarrow> string \<Rightarrow> jsval list \<Rightarrow> string + (row list \<times> database)"
  pg_run :: "database \<Rightarrow> string \<Rightarrow> jsval \<Rightarrow> string + (row list \<times> database)"
  close_failure :: "driver \<Rightarrow> string option"
  coerce_gt_zero :: "jsval \<Rightarrow> string + bool"
  db_state :: database
  exec :: "string \<Rightarrow> string \<Rightarrow> string + (string \<times> string)"
  trace :: "event list"

definition emit :: "event \<Rightarrow> world \<Rightarrow> world" where
  "emit e W = W\<lparr>trace := trace W @ [e]\<rparr>"

section \<open>Paths (node:path, node:url)\<close>

fun split_on :: "char \<Rightarrow> string \<Rightarrow> string list" where
  "split_on c [] = [[]]"
| "split_on c (x # xs) =
     (if x = c then [] # split_on c xs
      else (case split_on c xs of [] \<Rightarrow> [[x]] | s # ss \<Rightarrow> (x # s) # ss))"

fun is_absolute :: "string \<Rightarrow> bool" where
  "is_absolute [] = False"
| "is_absolute (x # xs) = (x = CHR ''/'')"

definition push_seg :: "string list \<Rightarrow> string \<Rightarrow> string list" where
  "push_seg acc s =
     (if s = [] \<or> s = ''.'' then acc else if s = ''..'' then butlast acc else acc @ [s])"

text \<open>
  \<open>resolve(base, p)\<close> for an absolute \<open>base\<close> (cli.ts resolves the working directory
  before it reaches the loader): \<open>p\<close> itself when absolute, otherwise \<open>p\<close> under \<open>base\<close>,
  with empty, \<open>.\<close> and \<open>..\<close> segments normalised away.
\<close>

definition resolve :: "string \<Rightarrow> string \<Rightarrow> string" where
  "resolve base p =
     ''/'' @ join ''/'' (foldl push_seg []
       (split_on CHR ''/'' (if is_absolute p then p else base @ ''/'' @ p)))"

definition dirname :: "string \<Rightarrow> string" where
  "dirname p =
     (let d = butlast (filter (\<lambda>s. s \<noteq> []) (split_on CHR ''/'' p))
      in if is_absolute p then ''/'' @ join ''/'' d
         else if d = [] then ''.'' else join ''/'' d)"

text \<open>\<open>pathToFileURL(p).href\<close>, without the percent-encoding of special characters.\<close>

definition pathToFileURL :: "string \<Rightarrow> string" where
  "pathToFileURL p = ''file://'' @ p"

section \<open>ConfigLoader (config.js)\<close>

record ConfigLoader =
  cl_cwd :: string
  cl_config :: "DrizzleConfig option"
  cl_configPath :: "string option"

definition commonPaths :: "string list" where
  "commonPaths = [''drizzle.config.ts'', ''drizzle.config.js'', ''drizzle.config.mjs'']"

text \<open>The loop of \<open>resolveConfigPath\<close> over the conventional file names.\<close>

fun probe :: "string \<Rightarrow> world \<Rightarrow> string list \<Rightarrow> (error + string) \<times> world" where
  "probe base W [] = (Inl NoConfigFound, W)"
| "probe base W (p # ps) =
     (let fullPath = resolve base p; W1 = emit (EvExists fullPath) W
      in if existsSync W1 fullPath then (Inr fullPath, W1) else probe base W1 ps)"

definition resolveConfigPath ::
  "ConfigLoader \<Rightarrow> world \<Rightarrow> string option \<Rightarrow> (error + string) \<times> world" where
  "resolveConfigPath L W configPath =
     (case configPath of
        Some p \<Rightarrow> (if p \<noteq> [] then (Inr (resolve (cl_cwd L) p), W)
                   else probe (cl_cwd L) W commonPaths)
      | None \<Rightarrow> probe (cl_cwd L) W commonPaths)"

text \<open>
  The guard of \<open>loadConfig\<close>: the cached configuration, when there is one and the
  argument is absent (or empty) or is, as a string, the stored \<open>configPath\<close>.
\<close>

definition cache_hit :: "ConfigLoader \<Rightarrow> string option \<Rightarrow> DrizzleConfig option" where
  "cache_hit L configPath =
     (if \<not> truthy_str configPath \<or> configPath = cl_configPath L then cl_config L else None)"

text \<open>\<open>configModule.default || configModule\<close>\<close>

definition rawConfig :: "jsval \<Rightarrow> jsval" where
  "rawConfig configModule =
     (if truthy (get_prop configModule ''default'') then get_prop configModule ''default''
      else configModule)"

text \<open>
  \<open>loadConfig\<close>: on a cache hit the cached configuration is returned. Otherwise the path
  is resolved and checked, the module imported and its default export (or the module
  itself) parsed; only after a successful parse are \<open>config\<close> and \<open>configPath\<close> assigned.
\<close>

definition loadConfig ::
  "ConfigLoader \<Rightarrow> world \<Rightarrow> string option \<Rightarrow> (error + DrizzleConfig) \<times> ConfigLoader \<times> world" where
  "loadConfig L W configPath =
     (case cache_hit L configPath of
        Some c \<Rightarrow> (Inr c, L, W)
      | None \<Rightarrow>
        (case resolveConfigPath L W configPath of
           (Inl e, W1) \<Rightarrow> (Inl e, L, W1)
         | (Inr resolvedPath, W1) \<Rightarrow>
             (let W2 = emit (EvExists resolvedPath) W1
              in if \<not> existsSync W2 resolvedPath then (Inl (ConfigNotFound resolvedPath), L, W2)
                 else
                   (let configUrl = pathToFileURL resolvedPath;
                        W3 = emit (EvImport configUrl) W2
                    in case import_url W3 configUrl of
                         Inl m \<Rightarrow> (Inl (ConfigLoadFailed m), L, W3)
                       | Inr configModule \<Rightarrow>
                           (case DrizzleConfigSchema (rawConfig configModule) of
                              Inl is \<Rightarrow> (Inl (ConfigInvalid is), L, W3)
                            | Inr c \<Rightarrow>
                                (Inr c,
                                 L\<lparr>cl_config := Some c, cl_configPath := Some resolvedPath\<rparr>,
                                 W3))))))"

definition getConfigDirectory :: "ConfigLoader \<Rightarrow> error + string" where
  "getConfigDirectory L =
     (case cl_configPath L of
        Some p \<Rightarrow> (if p \<noteq> [] then Inr (dirname p) else Inl NoConfigLoaded)
      | None \<Rightarrow> Inl NoConfigLoaded)"

section \<open>DatabaseManager (database.ts)\<close>

text \<open>
  A client is the object a driver constructs for a file or a connection string; the ORM
  wrapper \<open>drizzle(client)\<close> is kept beside it and not used by the queries.
\<close>

datatype client = Client driver string

datatype orm = Drizzle client

record DatabaseManager =
  dm_db :: "orm option"
  dm_client :: "client option"
  dm_config :: "DrizzleConfig option"
  dm_projectRoot :: string

definition importFromProject ::
  "DatabaseManager \<Rightarrow> world \<Rightarrow> string \<Rightarrow> (error + unit) \<times> world" where
  "importFromProject M W moduleName =
     (let W1 = emit (EvProjectImport moduleName) W
      in case import_failure W1 (dm_projectRoot M) moduleName of
           Some why \<Rightarrow> (Inl (ProjectImportFailed moduleName (dm_projectRoot M) why), W1)
         | None \<Rightarrow> (Inr (), W1))"

definition construct :: "driver \<Rightarrow> string \<Rightarrow> world \<Rightarrow> (error + client) \<times> world" where
  "construct d s W =
     (let W1 = emit (EvConstruct d s) W
      in case construct_failure W1 d s of
           Some why \<Rightarrow> (Inl (DriverError why), W1)
         | None \<Rightarrow> (Inr (Client d s), W1))"

text \<open>
  The body of each \<open>try\<close> block of the initializers: import the driver and its drizzle
  adapter from the project, construct the client, wrap it. The fields are assigned only
  when all of it succeeded.
\<close>

definition connect ::
  "DatabaseManager \<Rightarrow> world \<Rightarrow> string \<Rightarrow> string \<Rightarrow> driver \<Rightarrow> string \<Rightarrow>
   (error + unit) \<times> DatabaseManager \<times> world" where
  "connect M W driverModule adapterModule d s =
     (case importFromProject M W driverModule of
        (Inl e, W1) \<Rightarrow> (Inl e, M, W1)
      | (Inr u, W1) \<Rightarrow>
          (case importFromProject M W1 adapterModule of
             (Inl e, W2) \<Rightarrow> (Inl e, M, W2)
           | (Inr u', W2) \<Rightarrow>
               (case construct d s W2 of
                  (Inl e, W3) \<Rightarrow> (Inl e, M, W3)
                | (Inr c, W3) \<Rightarrow>
                    (Inr (), M\<lparr>dm_client := Some c, dm_db := Some (Drizzle c)\<rparr>, W3))))"

definition initializeSQLite ::
  "DatabaseManager \<Rightarrow> world \<Rightarrow> DrizzleConfig \<Rightarrow> (error + unit) \<times> DatabaseManager \<times> world" where
  "initializeSQLite M W config =
     (case url (dbCredentials config) of
        None \<Rightarrow> (Inl (MissingCredential ''sqlite''), M, W)
      | Some u \<Rightarrow>
          (if u = [] then (Inl (MissingCredential ''sqlite''), M, W)
           else if dm_client M \<noteq> None then (Inr (), M, W)
           else
             (case connect M W ''better-sqlite3'' ''drizzle-orm/better-sqlite3'' BetterSqlite3 u of
                (Inl e, M1, W1) \<Rightarrow> (Inl DriverUnavailableSqlite, M1, W1)
              | (Inr r, M1, W1) \<Rightarrow> (Inr r, M1, W1))))"

text \<open>\<open>x || ''\<close> on an optional string and \<open>x || d\<close> on an optional number.\<close>

fun str_or_empty :: "string option \<Rightarrow> string" where
  "str_or_empty None = []"
| "str_or_empty (Some s) = s"

fun num_or :: "int option \<Rightarrow> int \<Rightarrow> int" where
  "num_or None d = d"
| "num_or (Some n) d = (if n = 0 then d else n)"

definition digit_char :: "nat \<Rightarrow> char" where
  "digit_char d = char_of (48 + d)"

function show_nat :: "nat \<Rightarrow> string" where
  "show_nat n =
     (if n < 10 then [digit_char n] else show_nat (n div 10) @ [digit_char (n mod 10)])"
  by pat_completeness auto
termination
  by (relation "measure id") auto

declare show_nat.simps [simp del]

definition show_int :: "int \<Rightarrow> string" where
  "show_int i = (if i < 0 then ''-'' @ show_nat (nat (- i)) else show_nat (nat i))"

text \<open>
  The first half of \<open>initializePostgreSQL\<close>: the \<open>url\<close> when there is one, otherwise the
  string built from the single credentials, which must include host, user and database.
\<close>

definition connectionString :: "DrizzleConfig \<Rightarrow> error + string" where
  "connectionString config =
     (let cr = dbCredentials config
      in if truthy_str (url cr) then Inr (str_or_empty (url cr))
         else if \<not> truthy_str (host cr) \<or> \<not> truthy_str (user cr) \<or> \<not> truthy_str (database cr)
           then Inl (MissingCredential ''postgresql'')
         else Inr (''postgresql://'' @ str_or_empty (user cr) @ '':'' @
                   str_or_empty (password cr) @ ''@'' @ str_or_empty (host cr) @ '':'' @
                   show_int (num_or (port cr) 5432) @ ''/'' @ str_or_empty (database cr)))"

definition initializePostgreSQL ::
  "DatabaseManager \<Rightarrow> world \<Rightarrow> DrizzleConfig \<Rightarrow> (error + unit) \<times> DatabaseManager \<times> world" where
  "initializePostgreSQL M W config =
     (case connectionString config of
        Inl e \<Rightarrow> (Inl e, M, W)
      | Inr cs \<Rightarrow>
          (if dm_client M \<noteq> None then (Inr (), M, W)
           else
             (case connect M W ''postgres'' ''drizzle-orm/postgres-js'' PostgresJs cs of
                (Inr r, M1, W1) \<Rightarrow> (Inr r, M1, W1)
              | (Inl postgresError, M1, W1) \<Rightarrow>
                  (case connect M1 W1 ''pg'' ''drizzle-orm/node-postgres'' NodePg cs of
                     (Inr r, M2, W2) \<Rightarrow> (Inr r, M2, W2)
                   | (Inl pgError, M2, W2) \<Rightarrow>
                       (Inl (DriverUnavailablePg (dm_projectRoot M2) pgError), M2, W2)))))"

definition initialize ::
  "DatabaseManager \<Rightarrow> world \<Rightarrow> DrizzleConfig \<Rightarrow> (error + unit) \<times> DatabaseManager \<times> world" where
  "initialize M W config =
     (let M0 = M\<lparr>dm_config := Some config\<rparr>
      in if dialect config = ''sqlite'' then initializeSQLite M0 W config
         else if dialect config = ''postgresql'' then initializePostgreSQL M0 W config
         else (Inl (UnsupportedDialect (dialect config)), M0, W))"

definition getDb :: "DatabaseManager \<Rightarrow> error + orm" where
  "getDb M = (case dm_db M of None \<Rightarrow> Inl NotInitialized | Some d \<Rightarrow> Inr d)"

definition getClient :: "DatabaseManager \<Rightarrow> error + client" where
  "getClient M = (case dm_client M of None \<Rightarrow> Inl NotInitialized | Some c \<Rightarrow> Inr c)"

text \<open>\<open>this.config?.dialect\<close>\<close>

definition config_dialect :: "DatabaseManager \<Rightarrow> string option" where
  "config_dialect M = map_option dialect (dm_config M)"

text \<open>
  The driver calls. \<open>prepare(q).all(...ps)\<close> of better-sqlite3 prepares the statement
  and then refuses, with a TypeError, a statement that returns no data (\<open>all\<close>, \<open>get\<close>
  and \<open>iterate\<close> are for statements with result columns, \<open>run\<close> for the others).
  \<open>unsafe(q, params)\<close> of postgres-js and \<open>query(q, params)\<close> of pg run any statement; the
  \<open>rows\<close> of a statement without result columns are empty.
\<close>

definition sqlite_prepare_all ::
  "world \<Rightarrow> string \<Rightarrow> jsval list \<Rightarrow> (error + row list) \<times> world" where
  "sqlite_prepare_all W q ps =
     (let W1 = emit (EvQuery BetterSqlite3 q ps) W
      in case sql_compile W1 (db_state W1) q of
           Inl m \<Rightarrow> (Inl (DriverError m), W1)
         | Inr returns_data \<Rightarrow>
             (if \<not> returns_data
              then (Inl (TypeError ''This statement does not return data. Use run() instead''), W1)
              else (case sql_run W1 (db_state W1) q ps of
                      Inl m \<Rightarrow> (Inl (DriverError m), W1)
                    | Inr (rows, db') \<Rightarrow> (Inr rows, W1\<lparr>db_state := db'\<rparr>))))"

definition pg_query_rows ::
  "driver \<Rightarrow> world \<Rightarrow> string \<Rightarrow> jsval \<Rightarrow> (error + row list) \<times> world" where
  "pg_query_rows d W q params =
     (let W1 = emit (EvPgQuery d q params) W
      in case pg_run W1 (db_state W1) q params of
           Inl m \<Rightarrow> (Inl (DriverError m), W1)
         | Inr (rows, db') \<Rightarrow> (Inr rows, W1\<lparr>db_state := db'\<rparr>))"

text \<open>
  \<open>params\<close> is declared \<open>string[]\<close> with default \<open>[]\<close>, and nothing checks that it is one.
  The sqlite branch evaluates \<open>params.length > 0\<close>: \<open>null\<close> throws; an array and a string
  have their length; a number and a boolean have no \<open>length\<close>, and \<open>undefined > 0\<close> is
  false; an object has the \<open>length\<close> property it was given, compared as a number.
\<close>

definition gt_zero :: "world \<Rightarrow> jsval \<Rightarrow> error + bool" where
  "gt_zero W v =
     (case v of
        JUndefined \<Rightarrow> Inr False
      | JNull \<Rightarrow> Inr False
      | JBool b \<Rightarrow> Inr b
      | JNum n \<Rightarrow> Inr (0 < n)
      | _ \<Rightarrow> (case coerce_gt_zero W v of Inl m \<Rightarrow> Inl (TypeError m) | Inr b \<Rightarrow> Inr b))"

definition length_positive :: "world \<Rightarrow> jsval \<Rightarrow> error + bool" where
  "length_positive W params =
     (case params of
        JUndefined \<Rightarrow> Inr False
      | JNull \<Rightarrow> Inl (TypeError ''Cannot read properties of null (reading length)'')
      | JArr xs \<Rightarrow> Inr (xs \<noteq> [])
      | JStr s \<Rightarrow> Inr (s \<noteq> [])
      | JObj ps \<Rightarrow> gt_zero W (get_prop params ''length'')
      | _ \<Rightarrow> Inr False)"

text \<open>
  The spread \<open>...params\<close>, evaluated when the length is positive and after
  \<open>client.prepare(query)\<close> has returned: the elements of an array, the characters of a
  string, and a TypeError for an object, which is not iterable.
\<close>

definition spread :: "jsval \<Rightarrow> error + jsval list" where
  "spread params =
     (case params of
        JArr xs \<Rightarrow> Inr xs
      | JStr s \<Rightarrow> Inr (map (\<lambda>c. JStr [c]) s)
      | _ \<Rightarrow> Inl (TypeError
               ''Spread syntax requires ...iterable[Symbol.iterator] to be a function''))"

text \<open>The default \<open>params = []\<close> of \<open>executeQuery\<close>, which only \<open>undefined\<close> takes.\<close>

fun default_params :: "jsval \<Rightarrow> jsval" where
  "default_params JUndefined = JArr []"
| "default_params v = v"

definition executeQuery ::
  "DatabaseManager \<Rightarrow> world \<Rightarrow> string \<Rightarrow> jsval \<Rightarrow> (error + row list) \<times> world" where
  "executeQuery M W query params =
     (case getDb M of
        Inl e \<Rightarrow> (Inl e, W)
      | Inr db \<Rightarrow>
          (if config_dialect M = Some ''sqlite'' then
             (case getClient M of
                Inl e \<Rightarrow> (Inl e, W)
              | Inr (Client d s) \<Rightarrow>
                  (case length_positive W params of
                     Inl e \<Rightarrow> (Inl e, W)
                   | Inr positive \<Rightarrow>
                       (case d of
                          BetterSqlite3 \<Rightarrow>
                            (case (if positive then spread params else Inr []) of
                               Inr ps \<Rightarrow> sqlite_prepare_all W query ps
                             | Inl e \<Rightarrow>
                                 (case sql_compile W (db_state W) query of
                                    Inl m \<Rightarrow> (Inl (DriverError m), W)
                                  | Inr returns_data \<Rightarrow> (Inl e, W)))
                        | _ \<Rightarrow> (Inl (TypeError ''client.prepare is not a function''), W))))
           else if config_dialect M = Some ''postgresql'' then
             (case getClient M of
                Inl e \<Rightarrow> (Inl e, W)
              | Inr (Client d s) \<Rightarrow>
                  (case d of
                     BetterSqlite3 \<Rightarrow> (Inl UnknownPgClient, W)
                   | _ \<Rightarrow> pg_query_rows d W query (default_params params)))
           else (Inl (NotImplemented ''Query execution'' (config_dialect M)), W)))"

text \<open>
  The catalog statements of \<open>getTables\<close> and \<open>getSchema\<close> are fixed texts (runs of white
  space written as one blank). The driver is handed one as it is handed any statement,
  and may refuse it: better-sqlite3 when preparing it or running it, a PostgreSQL
  driver when running it.
\<close>

definition sqlite_tables_statement :: string where
  "sqlite_tables_statement = ''SELECT name FROM sqlite_master WHERE type='' @ sq ''table''"

definition sqlite_schema_statement :: string where
  "sqlite_schema_statement = ''SELECT name, sql FROM sqlite_master WHERE type='' @ sq ''table''"

definition pg_tables_statement :: string where
  "pg_tables_statement =
     ''SELECT tablename as name FROM pg_tables WHERE schemaname = '' @ sq ''public''"

definition pg_schema_statement :: string where
  "pg_schema_statement =
     ''SELECT t.tablename as name, '' @ sq ''CREATE TABLE '' @ '' || t.tablename || '' @
     sq '' (...);'' @ '' as sql FROM pg_tables t WHERE t.schemaname = '' @ sq ''public''"

definition catalog_refusal :: "driver \<Rightarrow> world \<Rightarrow> string \<Rightarrow> error option" where
  "catalog_refusal d W q =
     (case d of
        BetterSqlite3 \<Rightarrow>
          (case sql_compile W (db_state W) q of
             Inl m \<Rightarrow> Some (DriverError m)
           | Inr returns_data \<Rightarrow>
               (if \<not> returns_data
                then Some (TypeError ''This statement does not return data. Use run() instead'')
                else (case sql_run W (db_state W) q [] of
                        Inl m \<Rightarrow> Some (DriverError m)
                      | Inr r \<Rightarrow> None)))
      | _ \<Rightarrow>
          (case pg_run W (db_state W) q (JArr []) of
             Inl m \<Rightarrow> Some (DriverError m)
           | Inr r \<Rightarrow> None))"

text \<open>
  When the driver runs a catalog statement, its rows are what the text selects from the
  catalog, which it leaves as it is: the \<open>name\<close> (and \<open>sql\<close>) columns of the \<open>sqlite_master\<close>
  rows of type \<open>table\<close>, and for PostgreSQL the \<open>tablename\<close> of the \<open>pg_tables\<close> rows of
  schema \<open>public\<close> as \<open>name\<close>, with \<open>'CREATE TABLE ' || t.tablename || ' (...);'\<close> as \<open>sql\<close>.
\<close>

definition sqlite_tables :: "database \<Rightarrow> row list" where
  "sqlite_tables db =
     map (\<lambda>r. [(''name'', JStr (fst (snd r)))])
       (filter (\<lambda>r. fst r = ''table'') (sqlite_master db))"

definition sqlite_schema :: "database \<Rightarrow> row list" where
  "sqlite_schema db =
     map (\<lambda>r. [(''name'', JStr (fst (snd r))), (''sql'', JStr (snd (snd r)))])
       (filter (\<lambda>r. fst r = ''table'') (sqlite_master db))"

definition pg_public_tables :: "database \<Rightarrow> row list" where
  "pg_public_tables db =
     map (\<lambda>r. [(''name'', JStr (snd r))])
       (filter (\<lambda>r. fst r = ''public'') (pg_tables db))"

definition pg_public_schema :: "database \<Rightarrow> row list" where
  "pg_public_schema db =
     map (\<lambda>r. [(''name'', JStr (snd r)),
               (''sql'', JStr (''CREATE TABLE '' @ snd r @ '' (...);''))])
       (filter (\<lambda>r. fst r = ''public'') (pg_tables db))"

text \<open>One catalog call: the event, then the driver's refusal or the rows.\<close>

definition catalog_call ::
  "driver \<Rightarrow> event \<Rightarrow> world \<Rightarrow> string \<Rightarrow> row list \<Rightarrow> (error + row list) \<times> world" where
  "catalog_call d ev W q rows =
     (let W1 = emit ev W
      in case catalog_refusal d W1 q of
           Some e \<Rightarrow> (Inl e, W1)
         | None \<Rightarrow> (Inr rows, W1))"

definition getTables :: "DatabaseManager \<Rightarrow> world \<Rightarrow> (error + row list) \<times> world" where
  "getTables M W =
     (if config_dialect M = Some ''sqlite'' then
        (case getClient M of
           Inl e \<Rightarrow> (Inl e, W)
         | Inr (Client d s) \<Rightarrow>
             (case d of
                BetterSqlite3 \<Rightarrow>
                  catalog_call d (EvListTables d) W sqlite_tables_statement
                    (sqlite_tables (db_state W))
              | _ \<Rightarrow> (Inl (TypeError ''client.prepare is not a function''), W)))
      else if config_dialect M = Some ''postgresql'' then
        (case getClient M of
           Inl e \<Rightarrow> (Inl e, W)
         | Inr (Client d s) \<Rightarrow>
             (case d of
                BetterSqlite3 \<Rightarrow> (Inl UnknownPgClient, W)
              | _ \<Rightarrow>
                  catalog_call d (EvListTables d) W pg_tables_statement
                    (pg_public_tables (db_state W))))
      else (Inl (NotImplemented ''getTables'' (config_dialect M)), W))"

definition getSchema :: "DatabaseManager \<Rightarrow> world \<Rightarrow> (error + row list) \<times> world" where
  "getSchema M W =
     (if config_dialect M = Some ''sqlite'' then
        (case getClient M of
           Inl e \<Rightarrow> (Inl e, W)
         | Inr (Client d s) \<Rightarrow>
             (case d of
                BetterSqlite3 \<Rightarrow>
                  catalog_call d (EvDumpSchema d) W sqlite_schema_statement
                    (sqlite_schema (db_state W))
              | _ \<Rightarrow> (Inl (TypeError ''client.prepare is not a function''), W)))
      else if config_dialect M = Some ''postgresql'' then
        (case getClient M of
           Inl e \<Rightarrow> (Inl e, W)
         | Inr (Client d s) \<Rightarrow>
             (case d of
                BetterSqlite3 \<Rightarrow> (Inl UnknownPgClient, W)
              | _ \<Rightarrow>
                  catalog_call d (EvDumpSchema d) W pg_schema_statement
                    (pg_public_schema (db_state W))))
      else (Inl (NotImplemented ''getSchema'' (config_dialect M)), W))"

text \<open>
  \<open>close\<close>: with a client, \<open>this.client.close()\<close> for the stored dialect \<open>sqlite\<close> and
  \<open>this.client.end()\<close> for \<open>postgresql\<close>, then both fields are cleared; without one,
  nothing. A better-sqlite3 database has \<open>close\<close> and no \<open>end\<close>, a pg pool has \<open>end\<close> and
  no \<open>close\<close>, a postgres-js client has both; calling a method the client does not have
  throws a TypeError, and the fields stay as they are.
\<close>

fun has_method :: "driver \<Rightarrow> string \<Rightarrow> bool" where
  "has_method BetterSqlite3 m = (m = ''close'')"
| "has_method NodePg m = (m = ''end'')"
| "has_method PostgresJs m = (m = ''close'' \<or> m = ''end'')"

definition call_method :: "string \<Rightarrow> client \<Rightarrow> world \<Rightarrow> (error + unit) \<times> world" where
  "call_method m c W =
     (case c of
        Client d s \<Rightarrow>
          (if \<not> has_method d m
           then (Inl (TypeError (''this.client.'' @ m @ '' is not a function'')), W)
           else (let W1 = emit (EvClose d m) W
                 in case close_failure W1 d of
                      Some why \<Rightarrow> (Inl (DriverError why), W1)
                    | None \<Rightarrow> (Inr (), W1))))"

definition close ::
  "DatabaseManager \<Rightarrow> world \<Rightarrow> (error + unit) \<times> DatabaseManager \<times> world" where
  "close M W =
     (case dm_client M of
        None \<Rightarrow> (Inr (), M, W)
      | Some c \<Rightarrow>
          (case (if config_dialect M = Some ''sqlite'' then call_method ''close'' c W
                 else if config_dialect M = Some ''postgresql'' then call_method ''end'' c W
                 else (Inr (), W)) of
             (Inl e, W1) \<Rightarrow> (Inl e, M, W1)
           | (Inr u, W1) \<Rightarrow> (Inr (), M\<lparr>dm_client := None, dm_db := None\<rparr>, W1)))"

section \<open>JSON.stringify(value, null, 2)\<close>

definition hex_char :: "nat \<Rightarrow> char" where
  "hex_char d = (if d < 10 then char_of (48 + d) else char_of (87 + d))"

definition escape_char :: "char \<Rightarrow> string" where
  "escape_char c =
     (if c = CHR 0x22 then [CHR 0x5C, CHR 0x22]
      else if c = CHR 0x5C then [CHR 0x5C, CHR 0x5C]
      else if c = CHR 0x0A then [CHR 0x5C, CHR ''n'']
      else if c = CHR 0x0D then [CHR 0x5C, CHR ''r'']
      else if c = CHR 0x09 then [CHR 0x5C, CHR ''t'']
      else if c = CHR 0x08 then [CHR 0x5C, CHR ''b'']
      else if c = CHR 0x0C then [CHR 0x5C, CHR ''f'']
      else if (of_char c :: nat) < 32
        then [CHR 0x5C, CHR ''u'', CHR ''0'', CHR ''0'',
              hex_char (of_char c div 16), hex_char (of_char c mod 16)]
      else [c])"

definition dq :: "string \<Rightarrow> string" where
  "dq s = [CHR 0x22] @ concat (map escape_char s) @ [CHR 0x22]"

definition indent :: "nat \<Rightarrow> string" where
  "indent n = replicate (2 * n) CHR '' ''"

text \<open>
  The text of a value nested \<open>n\<close> levels deep. A property whose value is \<open>undefined\<close> is
  left out of an object; \<open>undefined\<close> in an array is written \<open>null\<close>.
\<close>

fun stringify :: "nat \<Rightarrow> jsval \<Rightarrow> string" where
  "stringify n JUndefined = ''null''"
| "stringify n JNull = ''null''"
| "stringify n (JBool b) = (if b then ''true'' else ''false'')"
| "stringify n (JNum i) = show_int i"
| "stringify n (JStr s) = dq s"
| "stringify n (JArr xs) =
     (if xs = [] then ''[]''
      else ''['' @ [CHR 0x0A] @
           join ('','' @ [CHR 0x0A]) (map (\<lambda>x. indent (Suc n) @ stringify (Suc n) x) xs) @
           [CHR 0x0A] @ indent n @ '']'')"
| "stringify n (JObj ps) =
     (let qs = filter (\<lambda>kv. snd kv \<noteq> JUndefined) ps
      in if qs = [] then ''{}''
         else ''{'' @ [CHR 0x0A] @
              join ('','' @ [CHR 0x0A])
                (map (\<lambda>kv. indent (Suc n) @ dq (fst kv) @ '': '' @ stringify (Suc n) (snd kv)) qs) @
              [CHR 0x0A] @ indent n @ ''}'')"

definition rows_json :: "row list \<Rightarrow> jsval" where
  "rows_json rows = JArr (map JObj rows)"

definition JSON_stringify :: "jsval \<Rightarrow> string" where
  "JSON_stringify v = stringify 0 v"

section \<open>DrizzleMCPServer (server.ts, dist/server.js)\<close>

record resource_uris =
  TABLES :: string
  SCHEMA :: string

text \<open>
  The constant \<open>RESOURCE_URIS\<close> is the one thing in which the two copies of the server
  differ: dist/server.js names the resources \<open>database://\<close>, server.ts \<open>sqlite://\<close>.
  The handlers below take it as their first argument.
\<close>

definition RESOURCE_URIS :: resource_uris where
  "RESOURCE_URIS = \<lparr>TABLES = ''database://tables'', SCHEMA = ''database://schema''\<rparr>"

definition RESOURCE_URIS_ts :: resource_uris where
  "RESOURCE_URIS_ts = \<lparr>TABLES = ''sqlite://tables'', SCHEMA = ''sqlite://schema''\<rparr>"

record DrizzleMCPServer =
  srv_configLoader :: ConfigLoader
  srv_databaseManager :: DatabaseManager
  srv_config :: "DrizzleConfig option"

text \<open>
  A tool response: the texts of its \<open>content\<close> items (all of type \<open>text\<close>) and the
  \<open>isError\<close> flag, which only the error response sets. A resource response: its one
  \<open>contents\<close> item.
\<close>

record tool_response =
  content :: "string list"
  isError :: bool

record resource_response =
  rc_uri :: string
  rc_mimeType :: string
  rc_text :: string

definition ok_response :: "string \<Rightarrow> tool_response" where
  "ok_response t = \<lparr>content = [t], isError = False\<rparr>"

text \<open>
  An argument that reaches \<open>resolve(cwd, configPath)\<close>: a string is a path, a falsy
  value counts as no path, and any other value makes \<open>resolve\<close> throw a TypeError
  (the loader's guard compares it with \<open>===\<close> and so never returns the cache for it).
\<close>

fun path_arg :: "jsval \<Rightarrow> error + string option" where
  "path_arg (JStr s) = Inr (Some s)"
| "path_arg v =
     (if truthy v then Inl (TypeError (''The '' @ [CHR 0x22] @ ''paths[1]'' @ [CHR 0x22] @
                                    '' argument must be of type string''))
      else Inr None)"

definition server_loadConfig ::
  "DrizzleMCPServer \<Rightarrow> world \<Rightarrow> jsval \<Rightarrow> (error + unit) \<times> DrizzleMCPServer \<times> world" where
  "server_loadConfig S W configPath =
     (if srv_config S = None \<or> truthy configPath then
        (case path_arg configPath of
           Inl e \<Rightarrow> (Inl e, S, W)
         | Inr p \<Rightarrow>
             (case loadConfig (srv_configLoader S) W p of
                (Inl e, L1, W1) \<Rightarrow> (Inl e, S\<lparr>srv_configLoader := L1\<rparr>, W1)
              | (Inr c, L1, W1) \<Rightarrow>
                  (case initialize (srv_databaseManager S) W1 c of
                     (r, M1, W2) \<Rightarrow>
                       (r, S\<lparr>srv_configLoader := L1, srv_config := Some c,
                              srv_databaseManager := M1\<rparr>, W2))))
      else (Inr (), S, W))"

text \<open>\<open>if (!this.config) { await this.loadConfig(); }\<close>\<close>

definition ensure_config ::
  "DrizzleMCPServer \<Rightarrow> world \<Rightarrow> (error + unit) \<times> DrizzleMCPServer \<times> world" where
  "ensure_config S W =
     (if srv_config S = None then server_loadConfig S W JUndefined else (Inr (), S, W))"

definition getDefaultConfigPath :: string where
  "getDefaultConfigPath = ''drizzle.config.ts''"

text \<open>\<open>config || this.getDefaultConfigPath()\<close>, after \<open>loadConfig(config)\<close> has returned.\<close>

fun config_or_default :: "jsval \<Rightarrow> string" where
  "config_or_default (JStr s) = (if s = [] then getDefaultConfigPath else s)"
| "config_or_default v = getDefaultConfigPath"

definition executeDrizzleKitCommand ::
  "DrizzleMCPServer \<Rightarrow> world \<Rightarrow> string \<Rightarrow> jsval \<Rightarrow>
   (error + string \<times> string) \<times> DrizzleMCPServer \<times> world" where
  "executeDrizzleKitCommand S W command config =
     (case server_loadConfig S W config of
        (Inl e, S1, W1) \<Rightarrow> (Inl e, S1, W1)
      | (Inr u, S1, W1) \<Rightarrow>
          (let configPath = config_or_default config;
               fullCommand = ''npx drizzle-kit '' @ command @ '' --config='' @ configPath
           in case getConfigDirectory (srv_configLoader S1) of
                Inl e \<Rightarrow> (Inl e, S1, W1)
              | Inr dir \<Rightarrow>
                  (let W2 = emit (EvExec fullCommand dir) W1
                   in case exec W2 fullCommand dir of
                        Inl m \<Rightarrow> (Inl (SubprocessFailure m), S1, W2)
                      | Inr outs \<Rightarrow> (Inr outs, S1, W2))))"

definition is_name_char :: "char \<Rightarrow> bool" where
  "is_name_char c =
     (let n = (of_char c :: nat)
      in (97 \<le> n \<and> n \<le> 122) \<or> (65 \<le> n \<and> n \<le> 90) \<or> (48 \<le> n \<and> n \<le> 57) \<or>
         c = CHR ''_'' \<or> c = CHR ''-'')"

text \<open>\<open>/^[a-zA-Z0-9_-]+$/.test(name)\<close>\<close>

definition name_pattern :: "string \<Rightarrow> bool" where
  "name_pattern s = (s \<noteq> [] \<and> list_all is_name_char s)"

fun validateMigrationName :: "jsval \<Rightarrow> error + string" where
  "validateMigrationName (JStr s) =
     (if s = [] then Inl (ValidationError ''Migration name is required and must be a string'')
      else if \<not> name_pattern s
        then Inl (ValidationError
               ''Migration name can only contain letters, numbers, hyphens, and underscores'')
      else Inr s)"
| "validateMigrationName v =
     Inl (ValidationError ''Migration name is required and must be a string'')"

text \<open>
  Destructuring \<open>const { p, ... } = args\<close> throws on \<open>undefined\<close> and \<open>null\<close>, naming the
  first property \<open>p\<close> of the pattern.
\<close>

fun destructure :: "string \<Rightarrow> jsval \<Rightarrow> error + jsval" where
  "destructure p JUndefined =
     Inl (TypeError (''Cannot destructure property '' @ sq p @ '' of '' @ sq ''args'' @
                     '' as it is undefined.''))"
| "destructure p JNull =
     Inl (TypeError (''Cannot destructure property '' @ sq p @ '' of '' @ sq ''args'' @
                     '' as it is null.''))"
| "destructure p v = Inr v"

definition outputs :: "string \<times> string \<Rightarrow> string" where
  "outputs res = [CHR 0x0A, CHR 0x0A] @ ''STDOUT:'' @ [CHR 0x0A] @ fst res @
                 [CHR 0x0A, CHR 0x0A] @ ''STDERR:'' @ [CHR 0x0A] @ snd res"

definition handleGenerateMigration ::
  "DrizzleMCPServer \<Rightarrow> world \<Rightarrow> jsval \<Rightarrow> (error + tool_response) \<times> DrizzleMCPServer \<times> world" where
  "handleGenerateMigration S W args =
     (case destructure ''name'' args of
        Inl e \<Rightarrow> (Inl e, S, W)
      | Inr a \<Rightarrow>
          (case validateMigrationName (get_prop a ''name'') of
             Inl e \<Rightarrow> (Inl e, S, W)
           | Inr migrationName \<Rightarrow>
               (case executeDrizzleKitCommand S W (''generate --name='' @ migrationName)
                       (get_prop a ''config'') of
                  (Inl e, S1, W1) \<Rightarrow> (Inl e, S1, W1)
                | (Inr res, S1, W1) \<Rightarrow>
                    (Inr (ok_response (''Migration '' @ sq migrationName @
                            '' generated successfully:'' @ outputs res)), S1, W1))))"

definition handleRunMigrations ::
  "DrizzleMCPServer \<Rightarrow> world \<Rightarrow> jsval \<Rightarrow> (error + tool_response) \<times> DrizzleMCPServer \<times> world" where
  "handleRunMigrations S W args =
     (case destructure ''config'' args of
        Inl e \<Rightarrow> (Inl e, S, W)
      | Inr a \<Rightarrow>
          (case executeDrizzleKitCommand S W ''migrate'' (get_prop a ''config'') of
             (Inl e, S1, W1) \<Rightarrow> (Inl e, S1, W1)
           | (Inr res, S1, W1) \<Rightarrow>
               (Inr (ok_response (''Migrations executed successfully:'' @ outputs res)), S1, W1)))"

definition handleIntrospectSchema ::
  "DrizzleMCPServer \<Rightarrow> world \<Rightarrow> jsval \<Rightarrow> (error + tool_response) \<times> DrizzleMCPServer \<times> world" where
  "handleIntrospectSchema S W args =
     (case destructure ''config'' args of
        Inl e \<Rightarrow> (Inl e, S, W)
      | Inr a \<Rightarrow>
          (case executeDrizzleKitCommand S W ''introspect'' (get_prop a ''config'') of
             (Inl e, S1, W1) \<Rightarrow> (Inl e, S1, W1)
           | (Inr res, S1, W1) \<Rightarrow>
               (Inr (ok_response (''Schema introspected successfully:'' @ outputs res)), S1, W1)))"

fun query_arg :: "jsval \<Rightarrow> error + string" where
  "query_arg (JStr s) =
     (if s = [] then Inl (ValidationError ''Query is required and must be a string'') else Inr s)"
| "query_arg v = Inl (ValidationError ''Query is required and must be a string'')"

definition handleExecuteQuery ::
  "DrizzleMCPServer \<Rightarrow> world \<Rightarrow> jsval \<Rightarrow> (error + tool_response) \<times> DrizzleMCPServer \<times> world" where
  "handleExecuteQuery S W args =
     (case destructure ''query'' args of
        Inl e \<Rightarrow> (Inl e, S, W)
      | Inr a \<Rightarrow>
          (case query_arg (get_prop a ''query'') of
             Inl e \<Rightarrow> (Inl e, S, W)
           | Inr query \<Rightarrow>
               (case ensure_config S W of
                  (Inl e, S1, W1) \<Rightarrow> (Inl e, S1, W1)
                | (Inr u, S1, W1) \<Rightarrow>
                    (case executeQuery (srv_databaseManager S1) W1 query
                            (get_prop a ''params'') of
                       (Inl e, W2) \<Rightarrow> (Inl e, S1, W2)
                     | (Inr result, W2) \<Rightarrow>
                         (Inr (ok_response (''Query executed successfully:'' @
                                 [CHR 0x0A, CHR 0x0A] @ ''Result:'' @ [CHR 0x0A] @
                                 JSON_stringify (rows_json result))), S1, W2)))))"

fun config_or_auto :: "jsval \<Rightarrow> string" where
  "config_or_auto (JStr s) = (if s = [] then ''auto-detected'' else s)"
| "config_or_auto v = ''auto-detected''"

definition handleInitializeDatabase ::
  "DrizzleMCPServer \<Rightarrow> world \<Rightarrow> jsval \<Rightarrow> (error + tool_response) \<times> DrizzleMCPServer \<times> world" where
  "handleInitializeDatabase S W args =
     (case destructure ''config'' args of
        Inl e \<Rightarrow> (Inl e, S, W)
      | Inr a \<Rightarrow>
          (case server_loadConfig S W (get_prop a ''config'') of
             (Inl e, S1, W1) \<Rightarrow> (Inl (InitializeFailed e), S1, W1)
           | (Inr u, S1, W1) \<Rightarrow>
               (Inr (ok_response (''Database initialized successfully with config: '' @
                       config_or_auto (get_prop a ''config''))), S1, W1)))"

text \<open>The \<open>switch\<close> of the tool-call handler, and the handler with its \<open>catch\<close>.\<close>

definition dispatchTool ::
  "DrizzleMCPServer \<Rightarrow> world \<Rightarrow> string \<Rightarrow> jsval \<Rightarrow>
   (error + tool_response) \<times> DrizzleMCPServer \<times> world" where
  "dispatchTool S W name args =
     (if name = ''drizzle_generate_migration'' then handleGenerateMigration S W args
      else if name = ''drizzle_run_migrations'' then handleRunMigrations S W args
      else if name = ''drizzle_introspect_schema'' then handleIntrospectSchema S W args
      else if name = ''execute_query'' then handleExecuteQuery S W args
      else if name = ''initialize_database'' then handleInitializeDatabase S W args
      else (Inl (UnknownTool name), S, W))"

text \<open>The names of the tools the ListTools handler declares.\<close>

definition tool_names :: "string list" where
  "tool_names = [''drizzle_generate_migration'', ''drizzle_run_migrations'',
     ''drizzle_introspect_schema'', ''execute_query'', ''initialize_database'']"

definition error_response :: "error \<Rightarrow> tool_response" where
  "error_response e = \<lparr>content = [''Error: '' @ message e], isError = True\<rparr>"

definition callTool ::
  "DrizzleMCPServer \<Rightarrow> world \<Rightarrow> string \<Rightarrow> jsval \<Rightarrow> tool_response \<times> DrizzleMCPServer \<times> world" where
  "callTool S W name args =
     (case dispatchTool S W name args of
        (Inl e, S1, W1) \<Rightarrow> (error_response e, S1, W1)
      | (Inr r, S1, W1) \<Rightarrow> (r, S1, W1))"

text \<open>
  The resource handler: the configuration is loaded, outside the \<open>try\<close>, when the server
  has none; the \<open>switch\<close> on the URI is inside it, and its \<open>catch\<close> throws a new error.
\<close>

definition resource_json :: "string \<Rightarrow> row list \<Rightarrow> resource_response" where
  "resource_json uri rows =
     \<lparr>rc_uri = uri, rc_mimeType = ''application/json'',
      rc_text = JSON_stringify (rows_json rows)\<rparr>"

definition resourceSwitch ::
  "resource_uris \<Rightarrow> DrizzleMCPServer \<Rightarrow> world \<Rightarrow> string \<Rightarrow> (error + resource_response) \<times> world" where
  "resourceSwitch R S W uri =
     (if uri = TABLES R then
        (case getTables (srv_databaseManager S) W of
           (Inl e, W1) \<Rightarrow> (Inl e, W1)
         | (Inr tables, W1) \<Rightarrow> (Inr (resource_json uri tables), W1))
      else if uri = SCHEMA R then
        (case getSchema (srv_databaseManager S) W of
           (Inl e, W1) \<Rightarrow> (Inl e, W1)
         | (Inr rows, W1) \<Rightarrow> (Inr (resource_json uri rows), W1))
      else (Inl (UnknownResource uri [TABLES R, SCHEMA R]), W))"

definition readResource ::
  "resource_uris \<Rightarrow> DrizzleMCPServer \<Rightarrow> world \<Rightarrow> string \<Rightarrow>
   (error + resource_response) \<times> DrizzleMCPServer \<times> world" where
  "readResource R S W uri =
     (case ensure_config S W of
        (Inl e, S1, W1) \<Rightarrow> (Inl e, S1, W1)
      | (Inr u, S1, W1) \<Rightarrow>
          (case resourceSwitch R S1 W1 uri of
             (Inl e, W2) \<Rightarrow> (Inl (ReadResourceFailed uri e), S1, W2)
           | (Inr r, W2) \<Rightarrow> (Inr r, S1, W2)))"

section \<open>The shape of a configuration the schema accepts\<close>

text \<open>A parse result that, when it fails, names at least one issue.\<close>

definition reports_issue :: "issue list + 'a \<Rightarrow> bool" where
  "reports_issue r = (case r of Inl is \<Rightarrow> is \<noteq> [] | Inr a \<Rightarrow> True)"

fun is_string :: "jsval \<Rightarrow> bool" where
  "is_string (JStr s) = True"
| "is_string v = False"

fun is_number :: "jsval \<Rightarrow> bool" where
  "is_number (JNum n) = True"
| "is_number v = False"

fun is_object :: "jsval \<Rightarrow> bool" where
  "is_object (JObj ps) = True"
| "is_object v = False"

fun is_string_or_strings :: "jsval \<Rightarrow> bool" where
  "is_string_or_strings (JStr s) = True"
| "is_string_or_strings (JArr xs) = list_all is_string xs"
| "is_string_or_strings v = False"

definition absent_or :: "(jsval \<Rightarrow> bool) \<Rightarrow> jsval \<Rightarrow> bool" where
  "absent_or P v = (v = JUndefined \<or> P v)"

definition well_typed_credentials :: "jsval \<Rightarrow> bool" where
  "well_typed_credentials v =
     (is_object v \<and>
      absent_or is_string (get_prop v ''url'') \<and>
      absent_or is_string (get_prop v ''host'') \<and>
      absent_or is_number (get_prop v ''port'') \<and>
      absent_or is_string (get_prop v ''user'') \<and>
      absent_or is_string (get_prop v ''password'') \<and>
      absent_or is_string (get_prop v ''database''))"

text \<open>
  The field types of section 3 of the specification, without its constraints on the
  value of \<open>dialect\<close> and on which credentials are present.
\<close>

definition well_typed :: "jsval \<Rightarrow> bool" where
  "well_typed v =
     (is_object v \<and>
      absent_or is_string (get_prop v ''out'') \<and>
      absent_or is_string_or_strings (get_prop v ''schema'') \<and>
      is_string (get_prop v ''dialect'') \<and>
      well_typed_credentials (get_prop v ''dbCredentials''))"

text \<open>
  The constraints of section 3 on a configuration of the right field types: the dialect
  is one of the two, \<open>postgresql\<close> has a \<open>url\<close> or all of \<open>host\<close>, \<open>user\<close>, \<open>database\<close>, and
  \<open>sqlite\<close> has a \<open>url\<close>. A credential that is the empty string counts as absent.
\<close>

definition violates_section3 :: "DrizzleConfig \<Rightarrow> bool" where
  "violates_section3 c =
     ((dialect c \<noteq> ''sqlite'' \<and> dialect c \<noteq> ''postgresql'') \<or>
      (dialect c = ''postgresql'' \<and> \<not> truthy_str (url (dbCredentials c)) \<and>
       (\<not> truthy_str (host (dbCredentials c)) \<or> \<not> truthy_str (user (dbCredentials c)) \<or>
        \<not> truthy_str (database (dbCredentials c)))) \<or>
      (dialect c = ''sqlite'' \<and> \<not> truthy_str (url (dbCredentials c))))"

text \<open>The driver of a client that was constructed for a dialect.\<close>

definition driver_for :: "string \<Rightarrow> driver \<Rightarrow> bool" where
  "driver_for dia d =
     ((dia = ''sqlite'' \<and> d = BetterSqlite3) \<or> (dia = ''postgresql'' \<and> d \<noteq> BetterSqlite3))"

text \<open>The method \<open>close\<close> calls and the statement \<open>getSchema\<close> sends, by stored dialect.\<close>

definition closing_method :: "string \<Rightarrow> string" where
  "closing_method dia = (if dia = ''sqlite'' then ''close'' else ''end'')"

definition schema_statement :: "DatabaseManager \<Rightarrow> string" where
  "schema_statement M =
     (if config_dialect M = Some ''sqlite'' then sqlite_schema_statement
      else pg_schema_statement)"

section \<open>Example projects\<close>

text \<open>
  A project directory for running the definitions: the files that exist, the value the
  configuration module exports as default, and the driver modules installed. Its
  database runs every statement to an empty result, a statement returns data when its
  text starts with \<open>SELECT\<close>, and clients close without error. No example hands the
  runtime a value to convert to a number; the table of conversions answers \<open>false\<close>.
\<close>

definition example_database :: database where
  "example_database =
     \<lparr>sqlite_master = [(''table'', ''t'', ''CREATE TABLE t(id INTEGER)''),
                       (''index'', ''t_idx'', ''CREATE INDEX t_idx ON t(id)'')],
      pg_tables = [(''public'', ''t''), (''pg_catalog'', ''pg_class'')],
      table_rows = [(''t'', [])]\<rparr>"

definition project :: "string list \<Rightarrow> jsval \<Rightarrow> string list \<Rightarrow> world" where
  "project files cfg installed =
     \<lparr>existsSync = (\<lambda>p. p \<in> set files),
      import_url = (\<lambda>u. if u \<in> set (map pathToFileURL files)
                         then Inr (JObj [(''default'', cfg)])
                         else Inl (''Cannot find module '' @ u)),
      import_failure = (\<lambda>root m. if m \<in> set installed then None
                                  else Some (''Cannot find module '' @ m)),
      construct_failure = (\<lambda>d s. None),
      sql_compile = (\<lambda>db q. Inr (take 6 q = ''SELECT'')),
      sql_run = (\<lambda>db q ps. Inr ([], db)),
      pg_run = (\<lambda>db q v. Inr ([], db)),
      close_failure = (\<lambda>d. None),
      coerce_gt_zero = (\<lambda>v. Inr False),
      db_state = example_database,
      exec = (\<lambda>c d. Inr ([], [])),
      trace = []\<rparr>"

definition sqlite_example :: jsval where
  "sqlite_example =
     JObj [(''dialect'', JStr ''sqlite''),
           (''dbCredentials'', JObj [(''url'', JStr ''./database.db'')])]"

definition postgres_example :: jsval where
  "postgres_example =
     JObj [(''dialect'', JStr ''postgresql''),
           (''dbCredentials'', JObj [(''url'', JStr ''postgresql://u:p@localhost:5432/d'')])]"

definition sqlite_drivers :: "string list" where
  "sqlite_drivers = [''better-sqlite3'', ''drizzle-orm/better-sqlite3'']"

definition postgres_drivers :: "string list" where
  "postgres_drivers = [''postgres'', ''drizzle-orm/postgres-js'']"

definition new_ConfigLoader :: "string \<Rightarrow> ConfigLoader" where
  "new_ConfigLoader cwd = \<lparr>cl_cwd = cwd, cl_config = None, cl_configPath = None\<rparr>"

definition new_DatabaseManager :: "string \<Rightarrow> DatabaseManager" where
  "new_DatabaseManager projectRoot =
     \<lparr>dm_db = None, dm_client = None, dm_config = None, dm_projectRoot = projectRoot\<rparr>"

definition new_DrizzleMCPServer :: "string \<Rightarrow> DrizzleMCPServer" where
  "new_DrizzleMCPServer cwd =
     \<lparr>srv_configLoader = new_ConfigLoader cwd,
      srv_databaseManager = new_DatabaseManager cwd,
      srv_config = None\<rparr>"

text \<open>Configuration objects: well typed ones that break section 3, and an ill-typed one.\<close>

definition unknown_dialect_example :: jsval where
  "unknown_dialect_example = JObj [(''dialect'', JStr ''mysql''), (''dbCredentials'', JObj [])]"

definition no_credentials_example :: jsval where
  "no_credentials_example =
     JObj [(''dialect'', JStr ''postgresql''),
           (''dbCredentials'', JObj [(''host'', JStr ''localhost'')])]"

definition no_url_example :: jsval where
  "no_url_example = JObj [(''dialect'', JStr ''sqlite''), (''dbCredentials'', JObj [])]"

definition ill_typed_example :: jsval where
  "ill_typed_example =
     JObj [(''dialect'', JNum 3), (''dbCredentials'', JObj [(''port'', JStr ''x'')])]"

definition sqlite_project :: world where
  "sqlite_project = project [''/proj/drizzle.config.ts''] sqlite_example sqlite_drivers"

definition postgres_project :: world where
  "postgres_project = project [''/proj/drizzle.config.js''] postgres_example postgres_drivers"

definition js_project :: world where
  "js_project = project [''/proj/drizzle.config.js''] sqlite_example sqlite_drivers"

text \<open>The PostgreSQL project with a server that refuses every statement.\<close>

definition refusing_project :: world where
  "refusing_project = postgres_project\<lparr>pg_run := (\<lambda>db q v. Inl ''connection refused'')\<rparr>"

definition sub_project :: world where
  "sub_project = project [''/proj/sub/drizzle.config.ts''] sqlite_example sqlite_drivers"

definition sqlite_config :: DrizzleConfig where
  "sqlite_config =
     \<lparr>out = None, schema = None, dialect = ''sqlite'',
      dbCredentials = \<lparr>url = Some ''./database.db'', host = None, port = None, user = None,
                        password = None, database = None\<rparr>,
      passthrough = []\<rparr>"

definition postgres_config :: DrizzleConfig where
  "postgres_config =
     \<lparr>out = None, schema = None, dialect = ''postgresql'',
      dbCredentials = \<lparr>url = Some ''postgresql://u:p@localhost:5432/d'', host = None,
                        port = None, user = None, password = None, database = None\<rparr>,
      passthrough = []\<rparr>"

definition unknown_dialect_config :: DrizzleConfig where
  "unknown_dialect_config =
     \<lparr>out = None, schema = None, dialect = ''mysql'',
      dbCredentials = \<lparr>url = None, host = None, port = None, user = None, password = None,
                        database = None\<rparr>,
      passthrough = []\<rparr>"

definition no_credentials_config :: DrizzleConfig where
  "no_credentials_config =
     \<lparr>out = None, schema = None, dialect = ''postgresql'',
      dbCredentials = \<lparr>url = None, host = Some ''localhost'', port = None, user = None,
                        password = None, database = Some ''d''\<rparr>,
      passthrough = []\<rparr>"

text \<open>The loader after \<open>loadConfig("drizzle.config.ts")\<close> in the sqlite project.\<close>

definition loaded_ConfigLoader :: ConfigLoader where
  "loaded_ConfigLoader =
     fst (snd (loadConfig (new_ConfigLoader ''/proj'') sqlite_project (Some ''drizzle.config.ts'')))"

text \<open>The manager and the server after \<open>initialize_database\<close> in the two projects.\<close>

definition sqlite_manager :: DatabaseManager where
  "sqlite_manager =
     \<lparr>dm_db = Some (Drizzle (Client BetterSqlite3 ''./database.db'')),
      dm_client = Some (Client BetterSqlite3 ''./database.db''),
      dm_config = Some sqlite_config, dm_projectRoot = ''/proj''\<rparr>"

definition postgres_server :: DrizzleMCPServer where
  "postgres_server =
     \<lparr>srv_configLoader =
        \<lparr>cl_cwd = ''/proj'', cl_config = Some postgres_config,
         cl_configPath = Some ''/proj/drizzle.config.js''\<rparr>,
      srv_databaseManager =
        \<lparr>dm_db = Some (Drizzle (Client PostgresJs ''postgresql://u:p@localhost:5432/d'')),
         dm_client = Some (Client PostgresJs ''postgresql://u:p@localhost:5432/d''),
         dm_config = Some postgres_config, dm_projectRoot = ''/proj''\<rparr>,
      srv_config = Some postgres_config\<rparr>"

section \<open>Unfolding rules for running the definitions\<close>

lemmas loader_defs = loadConfig_def cache_hit_def resolveConfigPath_def commonPaths_def
  resolve_def push_seg_def pathToFileURL_def emit_def rawConfig_def getConfigDirectory_def
  dirname_def new_ConfigLoader_def project_def Let_def

lemmas schema_defs = DrizzleConfigSchema_def DbCredentialsSchema_def z_field_def z_optional_def
  z_string_def z_number_def z_string_or_array_def mk_DrizzleConfig_def mk_DbCredentials_def
  schema_keys_def expected_def

lemmas manager_defs = initialize_def initializeSQLite_def initializePostgreSQL_def
  connectionString_def connect_def importFromProject_def construct_def new_DatabaseManager_def
  getDb_def getClient_def config_dialect_def executeQuery_def sqlite_prepare_all_def
  pg_query_rows_def getTables_def getSchema_def sqlite_tables_def sqlite_schema_def
  pg_public_tables_def pg_public_schema_def example_database_def length_positive_def
  spread_def gt_zero_def catalog_call_def catalog_refusal_def sqlite_tables_statement_def
  sqlite_schema_statement_def pg_tables_statement_def pg_schema_statement_def close_def
  call_method_def

lemmas server_defs = server_loadConfig_def ensure_config_def executeDrizzleKitCommand_def
  getDefaultConfigPath_def name_pattern_def is_name_char_def outputs_def
  handleGenerateMigration_def handleRunMigrations_def handleIntrospectSchema_def
  handleExecuteQuery_def handleInitializeDatabase_def dispatchTool_def callTool_def
  error_response_def ok_response_def resource_json_def resourceSwitch_def readResource_def
  new_DrizzleMCPServer_def RESOURCE_URIS_def RESOURCE_URIS_ts_def sq_def

lemmas example_defs = sqlite_project_def postgres_project_def js_project_def sub_project_def
  sqlite_example_def postgres_example_def sqlite_drivers_def postgres_drivers_def
  sqlite_config_def postgres_config_def sqlite_manager_def

lemma loaded_ConfigLoader_eq:
  "loaded_ConfigLoader =
     \<lparr>cl_cwd = ''/proj'', cl_config = Some sqlite_config,
      cl_configPath = Some ''/proj/drizzle.config.ts''\<rparr>"
  by (simp add: loaded_ConfigLoader_def example_defs loader_defs schema_defs)

section \<open>What the schema accepts\<close>

lemma z_string_iff: "(\<exists>s. z_string p v = Inr s) = is_string v"
  by (cases v) (simp_all add: z_string_def)

lemma z_string_Inr: "z_string p v = Inr s \<longleftrightarrow> v = JStr s"
  by (cases v) (auto simp add: z_string_def)

lemma z_string_reports: "reports_issue (z_string p v)"
  by (cases v) (simp_all add: z_string_def reports_issue_def)

lemma z_number_iff: "(\<exists>n. z_number p v = Inr n) = is_number v"
  by (cases v) (simp_all add: z_number_def)

lemma z_number_reports: "reports_issue (z_number p v)"
  by (cases v) (simp_all add: z_number_def reports_issue_def)

lemma z_string_array_items_iff:
  "(\<exists>ss. z_string_array_items p xs = Some ss) = list_all is_string xs"
proof (induction xs)
  case Nil
  show ?case by simp
next
  case (Cons x xs)
  show ?case
  proof (cases x)
    case (JStr s)
    with Cons show ?thesis by (auto simp: z_string_def split: option.splits)
  qed (simp_all add: z_string_def)
qed

lemma z_string_or_array_iff:
  "(\<exists>r. z_string_or_array p v = Inr r) = is_string_or_strings v"
proof (cases v)
  case (JArr xs)
  then show ?thesis
    using z_string_array_items_iff[of p xs]
    by (auto simp: z_string_or_array_def split: option.splits)
qed (simp_all add: z_string_or_array_def)

lemma z_string_or_array_reports: "reports_issue (z_string_or_array p v)"
  by (cases v) (simp_all add: z_string_or_array_def reports_issue_def split: option.splits)

lemma z_optional_iff:
  assumes "\<And>p v. (\<exists>a. f p v = Inr a) = P v"
  shows "(\<exists>a. z_optional f p v = Inr a) = absent_or P v"
  using assms[of p v] by (auto simp: z_optional_def absent_or_def split: sum.splits)

lemma z_optional_reports: "reports_issue (f p v) \<Longrightarrow> reports_issue (z_optional f p v)"
  by (auto simp: z_optional_def reports_issue_def split: sum.splits)

lemma z_field_iff:
  "(\<exists>b. z_field rf ra = Inr b) = ((\<exists>f. rf = Inr f) \<and> (\<exists>a. ra = Inr a))"
  by (auto simp: z_field_def split: sum.splits)

lemma z_field_reports:
  "reports_issue rf \<Longrightarrow> reports_issue ra \<Longrightarrow> reports_issue (z_field rf ra)"
  by (auto simp: z_field_def reports_issue_def split: sum.splits)

lemma z_field_Inr: "z_field rf ra = Inr b \<Longrightarrow> \<exists>f a. rf = Inr f \<and> ra = Inr a \<and> b = f a"
  by (auto simp: z_field_def split: sum.splits)

lemma DbCredentialsSchema_iff:
  "(\<exists>c. DbCredentialsSchema p v = Inr c) = well_typed_credentials v"
proof (cases v)
  case (JObj ps)
  show ?thesis
    unfolding DbCredentialsSchema_def well_typed_credentials_def JObj jsval.case z_field_iff
      z_optional_iff[of z_string, OF z_string_iff] z_optional_iff[of z_number, OF z_number_iff]
    by simp
qed (simp_all add: DbCredentialsSchema_def well_typed_credentials_def)

lemma DbCredentialsSchema_reports: "reports_issue (DbCredentialsSchema p v)"
proof (cases v)
  case (JObj ps)
  show ?thesis
    unfolding DbCredentialsSchema_def JObj jsval.case
    by (intro z_field_reports z_optional_reports z_string_reports z_number_reports)
       (simp add: reports_issue_def)
qed (simp_all add: DbCredentialsSchema_def reports_issue_def)

lemma DrizzleConfigSchema_iff: "(\<exists>c. DrizzleConfigSchema v = Inr c) = well_typed v"
proof (cases v)
  case (JObj ps)
  show ?thesis
    unfolding DrizzleConfigSchema_def well_typed_def JObj jsval.case z_field_iff
      z_optional_iff[of z_string, OF z_string_iff]
      z_optional_iff[of z_string_or_array, OF z_string_or_array_iff]
      z_string_iff DbCredentialsSchema_iff
    by simp
qed (simp_all add: DrizzleConfigSchema_def well_typed_def)

lemma DrizzleConfigSchema_reports: "reports_issue (DrizzleConfigSchema v)"
proof (cases v)
  case (JObj ps)
  show ?thesis
    unfolding DrizzleConfigSchema_def JObj jsval.case
    by (intro z_field_reports z_optional_reports z_string_reports z_string_or_array_reports
          DbCredentialsSchema_reports)
       (simp add: reports_issue_def)
qed (simp_all add: DrizzleConfigSchema_def reports_issue_def)

lemma DrizzleConfigSchema_dialect:
  assumes "DrizzleConfigSchema v = Inr c"
  shows "get_prop v ''dialect'' = JStr (dialect c)"
proof (cases v)
  case (JObj ps)
  from assms[unfolded DrizzleConfigSchema_def JObj jsval.case]
  show ?thesis
    unfolding JObj
    by (auto dest!: z_field_Inr simp: z_string_Inr mk_DrizzleConfig_def)
qed (use assms in \<open>simp_all add: DrizzleConfigSchema_def\<close>)

section \<open>ConfigLoader: validation, caching, failure\<close>

lemma existsSync_emit [simp]: "existsSync (emit e W) = existsSync W"
  by (simp add: emit_def)

lemma import_url_emit [simp]: "import_url (emit e W) = import_url W"
  by (simp add: emit_def)

text \<open>
  C1, as stated, fails: \<open>loadConfig\<close> returns as validated a configuration whose dialect
  is \<open>mysql\<close>, a \<open>postgresql\<close> one with neither \<open>url\<close> nor \<open>user\<close> and \<open>database\<close>, and a
  \<open>sqlite\<close> one without \<open>url\<close>. The schema types \<open>dialect\<close> as any string and every
  credential as optional.
\<close>

theorem loadConfig_accepts_section3_violations:
  "map_sum id dialect (fst (loadConfig (new_ConfigLoader ''/proj'')
      (project [''/proj/drizzle.config.ts''] unknown_dialect_example []) None)) = Inr ''mysql''
   \<and> map_sum id dbCredentials (fst (loadConfig (new_ConfigLoader ''/proj'')
      (project [''/proj/drizzle.config.ts''] no_credentials_example []) None)) =
       Inr \<lparr>url = None, host = Some ''localhost'', port = None, user = None,
            password = None, database = None\<rparr>
   \<and> map_sum id dbCredentials (fst (loadConfig (new_ConfigLoader ''/proj'')
      (project [''/proj/drizzle.config.ts''] no_url_example []) None)) =
       Inr \<lparr>url = None, host = None, port = None, user = None, password = None,
            database = None\<rparr>"
  by (simp add: loader_defs schema_defs unknown_dialect_example_def no_credentials_example_def
      no_url_example_def)

lemma initialize_rejects_violation:
  assumes "violates_section3 c"
  shows "initialize M W c = (Inl (UnsupportedDialect (dialect c)), M\<lparr>dm_config := Some c\<rparr>, W) \<or>
         initialize M W c = (Inl (MissingCredential (dialect c)), M\<lparr>dm_config := Some c\<rparr>, W)"
proof (cases "url (dbCredentials c)")
  case None
  with assms show ?thesis
    by (auto simp: violates_section3_def initialize_def initializeSQLite_def
        initializePostgreSQL_def connectionString_def Let_def)
next
  case (Some u)
  with assms show ?thesis
    by (auto simp: violates_section3_def initialize_def initializeSQLite_def
        initializePostgreSQL_def connectionString_def Let_def)
qed

text \<open>
  C1, amended: a load that reaches the file (no cache hit, the path resolves, the file
  exists and its module loads) fails with \<open>ConfigInvalid\<close> and a non-empty list of issues,
  leaving the loader as it was, exactly when the exported object breaks the field types
  of the schema; an object of the right field types is returned and cached whatever the
  string its \<open>dialect\<close> is and whichever credentials it has. A configuration that breaks
  the constraints of section 3 is rejected afterwards, by \<open>DatabaseManager.initialize\<close>,
  with the unsupported-dialect or the missing-credential error and before anything is
  done in the world.
\<close>

theorem loadConfig_validates_field_types:
  assumes "cache_hit L p = None"
      and "resolveConfigPath L W p = (Inr rp, W1)"
      and "existsSync W1 rp"
      and "import_url W1 (pathToFileURL rp) = Inr m"
  shows "(\<not> well_typed (rawConfig m) \<longrightarrow>
            (\<exists>is. is \<noteq> [] \<and> loadConfig L W p =
               (Inl (ConfigInvalid is), L,
                emit (EvImport (pathToFileURL rp)) (emit (EvExists rp) W1))))
       \<and> (well_typed (rawConfig m) \<longrightarrow>
            (\<exists>c. get_prop (rawConfig m) ''dialect'' = JStr (dialect c) \<and>
                 loadConfig L W p =
                   (Inr c, L\<lparr>cl_config := Some c, cl_configPath := Some rp\<rparr>,
                    emit (EvImport (pathToFileURL rp)) (emit (EvExists rp) W1))))
       \<and> (\<forall>c M W'. violates_section3 c \<longrightarrow>
            (\<exists>e. initialize M W' c = (Inl e, M\<lparr>dm_config := Some c\<rparr>, W') \<and>
                 (e = UnsupportedDialect (dialect c) \<or> e = MissingCredential (dialect c))))"
proof -
  have types: "(\<not> well_typed (rawConfig m) \<longrightarrow>
            (\<exists>is. is \<noteq> [] \<and> loadConfig L W p =
               (Inl (ConfigInvalid is), L,
                emit (EvImport (pathToFileURL rp)) (emit (EvExists rp) W1))))
       \<and> (well_typed (rawConfig m) \<longrightarrow>
            (\<exists>c. get_prop (rawConfig m) ''dialect'' = JStr (dialect c) \<and>
                 loadConfig L W p =
                   (Inr c, L\<lparr>cl_config := Some c, cl_configPath := Some rp\<rparr>,
                    emit (EvImport (pathToFileURL rp)) (emit (EvExists rp) W1))))"
  proof (cases "DrizzleConfigSchema (rawConfig m)")
    case (Inl iss)
    then have "\<not> well_typed (rawConfig m)"
      using DrizzleConfigSchema_iff[of "rawConfig m"] by simp
    moreover have "iss \<noteq> []"
      using DrizzleConfigSchema_reports[of "rawConfig m"] Inl by (simp add: reports_issue_def)
    moreover have "loadConfig L W p =
        (Inl (ConfigInvalid iss), L, emit (EvImport (pathToFileURL rp)) (emit (EvExists rp) W1))"
      using assms Inl by (simp add: loadConfig_def Let_def)
    ultimately show ?thesis by blast
  next
    case (Inr c)
    then have "well_typed (rawConfig m)"
      using DrizzleConfigSchema_iff[of "rawConfig m"] by auto
    moreover have "loadConfig L W p =
        (Inr c, L\<lparr>cl_config := Some c, cl_configPath := Some rp\<rparr>,
         emit (EvImport (pathToFileURL rp)) (emit (EvExists rp) W1))"
      using assms Inr by (simp add: loadConfig_def Let_def)
    ultimately show ?thesis using DrizzleConfigSchema_dialect[OF Inr] by blast
  qed
  have later: "\<forall>c M W'. violates_section3 c \<longrightarrow>
            (\<exists>e. initialize M W' c = (Inl e, M\<lparr>dm_config := Some c\<rparr>, W') \<and>
                 (e = UnsupportedDialect (dialect c) \<or> e = MissingCredential (dialect c)))"
    using initialize_rejects_violation by blast
  from types later show ?thesis by blast
qed

theorem loadConfig_validates_field_types_witness:
  "(\<exists>is. is \<noteq> [] \<and> fst (loadConfig (new_ConfigLoader ''/proj'')
      (project [''/proj/drizzle.config.ts''] ill_typed_example []) None) = Inl (ConfigInvalid is))
   \<and> (\<exists>c. dialect c = ''mysql'' \<and> fst (loadConfig (new_ConfigLoader ''/proj'')
      (project [''/proj/drizzle.config.ts''] unknown_dialect_example []) None) = Inr c)
   \<and> violates_section3 unknown_dialect_config
   \<and> initialize (new_DatabaseManager ''/proj'') sqlite_project unknown_dialect_config =
       (Inl (UnsupportedDialect ''mysql''),
        (new_DatabaseManager ''/proj'')\<lparr>dm_config := Some unknown_dialect_config\<rparr>,
        sqlite_project)"
proof -
  let ?L = "new_ConfigLoader ''/proj''"
  let ?rp = "''/proj/drizzle.config.ts''"
  have a: "cache_hit ?L None = None"
    by (simp add: loader_defs)
  have b: "resolveConfigPath ?L (project [?rp] x []) None =
             (Inr ?rp, emit (EvExists ?rp) (project [?rp] x []))" for x
    by (simp add: loader_defs)
  have c: "existsSync (emit (EvExists ?rp) (project [?rp] x [])) ?rp" for x
    by (simp add: loader_defs)
  have d: "import_url (emit (EvExists ?rp) (project [?rp] x [])) (pathToFileURL ?rp) =
             Inr (JObj [(''default'', x)])" for x
    by (simp add: loader_defs)
  have e: "rawConfig (JObj [(''default'', ill_typed_example)]) = ill_typed_example"
          "rawConfig (JObj [(''default'', unknown_dialect_example)]) = unknown_dialect_example"
    by (simp_all add: rawConfig_def ill_typed_example_def unknown_dialect_example_def)
  have f: "\<not> well_typed ill_typed_example" "well_typed unknown_dialect_example"
    by (simp_all add: well_typed_def well_typed_credentials_def absent_or_def
        ill_typed_example_def unknown_dialect_example_def)
  have g: "get_prop unknown_dialect_example ''dialect'' = JStr ''mysql''"
    by (simp add: unknown_dialect_example_def)
  from loadConfig_validates_field_types[OF a b c d, of ill_typed_example] e f
  have 1: "\<exists>is. is \<noteq> [] \<and>
             fst (loadConfig ?L (project [?rp] ill_typed_example []) None) = Inl (ConfigInvalid is)"
    by auto
  from loadConfig_validates_field_types[OF a b c d, of unknown_dialect_example] e f g
  have 2: "\<exists>c. dialect c = ''mysql'' \<and>
             fst (loadConfig ?L (project [?rp] unknown_dialect_example []) None) = Inr c"
    by auto
  have v: "violates_section3 unknown_dialect_config"
    by (simp add: violates_section3_def unknown_dialect_config_def)
  have k: "dialect unknown_dialect_config = ''mysql''"
    by (simp add: unknown_dialect_config_def)
  from loadConfig_validates_field_types[OF a b c d, of ill_typed_example] v k
  have 3: "initialize (new_DatabaseManager ''/proj'') sqlite_project unknown_dialect_config =
       (Inl (UnsupportedDialect ''mysql''),
        (new_DatabaseManager ''/proj'')\<lparr>dm_config := Some unknown_dialect_config\<rparr>,
        sqlite_project)"
    by (auto simp: initialize_def)
  from 1 2 3 v show ?thesis by blast
qed

text \<open>
  C2: the guard compares the argument with the stored resolved path as strings. After
  \<open>loadConfig("drizzle.config.ts")\<close> with working directory \<open>/proj\<close> the stored path is
  \<open>/proj/drizzle.config.ts\<close>, which is what the same argument resolves to; the same call
  again asks the file system for the file and the module loader for the module, and
  fails when the file is gone. Only the absolute path itself, or no path, returns the
  cache without touching either.
\<close>

theorem loadConfig_same_relative_path_reloads:
  "cl_config loaded_ConfigLoader = Some sqlite_config
   \<and> cl_configPath loaded_ConfigLoader = Some (resolve ''/proj'' ''drizzle.config.ts'')
   \<and> trace (snd (snd (loadConfig loaded_ConfigLoader sqlite_project
                         (Some ''drizzle.config.ts'')))) =
       [EvExists ''/proj/drizzle.config.ts'', EvImport ''file:///proj/drizzle.config.ts'']
   \<and> fst (loadConfig loaded_ConfigLoader (project [] sqlite_example sqlite_drivers)
            (Some ''drizzle.config.ts'')) =
       Inl (ConfigNotFound ''/proj/drizzle.config.ts'')
   \<and> loadConfig loaded_ConfigLoader (project [] sqlite_example sqlite_drivers)
        (Some ''/proj/drizzle.config.ts'') =
       (Inr sqlite_config, loaded_ConfigLoader, project [] sqlite_example sqlite_drivers)
   \<and> loadConfig loaded_ConfigLoader (project [] sqlite_example sqlite_drivers) None =
       (Inr sqlite_config, loaded_ConfigLoader, project [] sqlite_example sqlite_drivers)"
  unfolding loaded_ConfigLoader_eq
  by (simp add: example_defs loader_defs schema_defs)

lemma loadConfig_failure:
  assumes "loadConfig L W p = (Inl e, L', W')"
  shows "L' = L"
  using assms unfolding loadConfig_def
  by (auto split: option.splits prod.splits sum.splits if_splits simp: Let_def)

lemma cache_hit_None: "cache_hit L None = cl_config L"
  by (simp add: cache_hit_def)

text \<open>
  C10: a \<open>loadConfig\<close> call that fails, for whatever reason, returns the loader it was
  given: \<open>getConfigDirectory\<close> answers as before, and a configuration loaded earlier is
  still what a later call without a path returns, in any state of the world.
\<close>

theorem loadConfig_failure_keeps_cache:
  assumes "loadConfig L W p = (Inl e, L', W')"
  shows "L' = L \<and> getConfigDirectory L' = getConfigDirectory L \<and>
         (\<forall>c W2. cl_config L = Some c \<longrightarrow> loadConfig L' W2 None = (Inr c, L', W2))"
  using loadConfig_failure[OF assms] by (simp add: loadConfig_def cache_hit_None)

theorem loadConfig_failure_keeps_cache_witness:
  "loadConfig loaded_ConfigLoader sqlite_project (Some ''missing.ts'') =
     (Inl (ConfigNotFound ''/proj/missing.ts''), loaded_ConfigLoader,
      emit (EvExists ''/proj/missing.ts'') sqlite_project)
   \<and> getConfigDirectory loaded_ConfigLoader = Inr ''/proj''
   \<and> fst (loadConfig loaded_ConfigLoader sqlite_project None) = Inr sqlite_config"
proof -
  have h: "loadConfig loaded_ConfigLoader sqlite_project (Some ''missing.ts'') =
     (Inl (ConfigNotFound ''/proj/missing.ts''), loaded_ConfigLoader,
      emit (EvExists ''/proj/missing.ts'') sqlite_project)"
    unfolding loaded_ConfigLoader_eq
    by (simp add: example_defs loader_defs schema_defs)
  have c: "cl_config loaded_ConfigLoader = Some sqlite_config"
    by (simp add: loaded_ConfigLoader_eq)
  have d: "getConfigDirectory loaded_ConfigLoader = Inr ''/proj''"
    by (simp add: loaded_ConfigLoader_eq loader_defs)
  from loadConfig_failure_keeps_cache[OF h] c d h show ?thesis by simp
qed

section \<open>DatabaseManager: credentials, the single client, queries\<close>

text \<open>
  C6: for a \<open>postgresql\<close> configuration without a (non-empty) \<open>url\<close> and without one of
  \<open>host\<close>, \<open>user\<close>, \<open>database\<close>, \<open>initialize\<close> fails with the missing-credential error.
  The world is returned as it was given, so no driver module was resolved and no client
  constructed, and the manager differs only in the stored configuration.
\<close>

theorem initialize_postgresql_missing_credential:
  assumes "dialect config = ''postgresql''"
      and "\<not> truthy_str (url (dbCredentials config))"
      and "\<not> truthy_str (host (dbCredentials config)) \<or>
           \<not> truthy_str (user (dbCredentials config)) \<or>
           \<not> truthy_str (database (dbCredentials config))"
  shows "initialize M W config =
           (Inl (MissingCredential ''postgresql''), M\<lparr>dm_config := Some config\<rparr>, W)"
  using assms
  by (auto simp: initialize_def initializePostgreSQL_def connectionString_def Let_def)

theorem initialize_postgresql_missing_credential_witness:
  "initialize (new_DatabaseManager ''/proj'') postgres_project no_credentials_config =
     (Inl (MissingCredential ''postgresql''),
      (new_DatabaseManager ''/proj'')\<lparr>dm_config := Some no_credentials_config\<rparr>,
      postgres_project)
   \<and> dm_client ((new_DatabaseManager ''/proj'')\<lparr>dm_config := Some no_credentials_config\<rparr>) = None
   \<and> trace postgres_project = []"
proof -
  have a: "dialect no_credentials_config = ''postgresql''"
    by (simp add: no_credentials_config_def)
  have b: "\<not> truthy_str (url (dbCredentials no_credentials_config))"
    by (simp add: no_credentials_config_def)
  have c: "\<not> truthy_str (host (dbCredentials no_credentials_config)) \<or>
           \<not> truthy_str (user (dbCredentials no_credentials_config)) \<or>
           \<not> truthy_str (database (dbCredentials no_credentials_config))"
    by (simp add: no_credentials_config_def)
  from initialize_postgresql_missing_credential[OF a b c] show ?thesis
    by (simp add: new_DatabaseManager_def postgres_project_def project_def)
qed

lemma connect_config: "dm_config (fst (snd (connect M W a b d s))) = dm_config M"
  by (simp add: connect_def split: prod.splits sum.splits)

lemma initializeSQLite_config:
  "dm_config (fst (snd (initializeSQLite M W config))) = dm_config M"
proof (cases "connect M W ''better-sqlite3'' ''drizzle-orm/better-sqlite3'' BetterSqlite3
                (str_or_empty (url (dbCredentials config)))")
  case (fields r M1 W1)
  with connect_config[of M W "''better-sqlite3''" "''drizzle-orm/better-sqlite3''"
         BetterSqlite3 "str_or_empty (url (dbCredentials config))"]
  show ?thesis
    by (cases r) (auto simp: initializeSQLite_def split: option.splits)
qed

lemma initializePostgreSQL_config:
  "dm_config (fst (snd (initializePostgreSQL M W config))) = dm_config M"
proof (cases "connectionString config")
  case (Inl e)
  then show ?thesis by (simp add: initializePostgreSQL_def)
next
  case (Inr cs)
  show ?thesis
  proof (cases "dm_client M \<noteq> None")
    case True
    with Inr show ?thesis by (simp add: initializePostgreSQL_def)
  next
    case False
    obtain r1 M1 W1 where
      c1: "connect M W ''postgres'' ''drizzle-orm/postgres-js'' PostgresJs cs = (r1, M1, W1)"
      by (cases "connect M W ''postgres'' ''drizzle-orm/postgres-js'' PostgresJs cs")
    obtain r2 M2 W2 where
      c2: "connect M1 W1 ''pg'' ''drizzle-orm/node-postgres'' NodePg cs = (r2, M2, W2)"
      by (cases "connect M1 W1 ''pg'' ''drizzle-orm/node-postgres'' NodePg cs")
    have m1: "dm_config M1 = dm_config M"
      using connect_config[of M W "''postgres''" "''drizzle-orm/postgres-js''" PostgresJs cs] c1
      by simp
    have m2: "dm_config M2 = dm_config M1"
      using connect_config[of M1 W1 "''pg''" "''drizzle-orm/node-postgres''" NodePg cs] c2
      by simp
    from False Inr c1 c2 m1 m2 show ?thesis
      by (cases r1; cases r2) (simp_all add: initializePostgreSQL_def)
  qed
qed

lemma initialize_config: "dm_config (fst (snd (initialize M W config))) = Some config"
  by (simp add: initialize_def Let_def initializeSQLite_config initializePostgreSQL_config)

lemma initializeSQLite_existing_client:
  "dm_client M \<noteq> None \<Longrightarrow> snd (initializeSQLite M W config) = (M, W)"
  by (simp add: initializeSQLite_def split: option.splits)

lemma initializePostgreSQL_existing_client:
  "dm_client M \<noteq> None \<Longrightarrow> snd (initializePostgreSQL M W config) = (M, W)"
  by (simp add: initializePostgreSQL_def split: sum.splits)

lemma initialize_existing_client:
  assumes "dm_client M \<noteq> None"
  shows "snd (initialize M W config) = (M\<lparr>dm_config := Some config\<rparr>, W)"
  using assms
  by (simp add: initialize_def Let_def initializeSQLite_existing_client
      initializePostgreSQL_existing_client)

lemma close_matching_client:
  assumes "dm_client M = Some (Client d s)"
      and "dm_config M = Some config"
      and "driver_for (dialect config) d"
      and "close_failure W d = None"
  shows "close M W =
           (Inr (), M\<lparr>dm_client := None, dm_db := None\<rparr>,
            emit (EvClose d (closing_method (dialect config))) W)"
  using assms
  by (cases d)
     (auto simp: close_def call_method_def config_dialect_def driver_for_def closing_method_def
        emit_def Let_def)

lemma close_without_client: "dm_client M = None \<Longrightarrow> close M W = (Inr (), M, W)"
  by (simp add: close_def)

text \<open>
  C9, as stated, fails in its parenthesis: after a second \<open>initialize\<close> with a
  configuration of the other dialect, the kept client is the sqlite one and the stored
  dialect is \<open>postgresql\<close>, so \<open>close\<close> calls \<open>end\<close>, which a better-sqlite3 database does
  not have; it throws and the client stays. No teardown succeeds in that state.
\<close>

theorem close_after_dialect_switch_fails:
  "close (fst (snd (initialize sqlite_manager postgres_project postgres_config)))
         postgres_project =
     (Inl (TypeError ''this.client.end is not a function''),
      sqlite_manager\<lparr>dm_config := Some postgres_config\<rparr>, postgres_project)
   \<and> dm_client (sqlite_manager\<lparr>dm_config := Some postgres_config\<rparr>) =
       Some (Client BetterSqlite3 ''./database.db'')"
  by (simp add: manager_defs example_defs)

text \<open>
  C9, amended: every \<open>initialize\<close> call, failing or not, leaves the configuration it was
  given as the stored one; a call on a manager that already holds a client leaves the
  client and the ORM wrapper as they are and does nothing in the world, so no second
  client is constructed. When the configuration given has the dialect the client was
  constructed for and the driver closes the client without error, one \<open>close\<close> closes
  that client and clears both fields, and a further \<open>close\<close> does nothing.
\<close>

theorem initialize_first_client_last_config:
  "dm_config (fst (snd (initialize M W config))) = Some config
   \<and> (dm_client M \<noteq> None \<longrightarrow>
        dm_client (fst (snd (initialize M W config))) = dm_client M
      \<and> dm_db (fst (snd (initialize M W config))) = dm_db M
      \<and> snd (snd (initialize M W config)) = W)
   \<and> (\<forall>d s W2 W3. dm_client M = Some (Client d s) \<and> driver_for (dialect config) d \<and>
                    close_failure W2 d = None \<longrightarrow>
        close (fst (snd (initialize M W config))) W2 =
          (Inr (), (fst (snd (initialize M W config)))\<lparr>dm_client := None, dm_db := None\<rparr>,
           emit (EvClose d (closing_method (dialect config))) W2)
      \<and> close ((fst (snd (initialize M W config)))\<lparr>dm_client := None, dm_db := None\<rparr>) W3 =
          (Inr (), (fst (snd (initialize M W config)))\<lparr>dm_client := None, dm_db := None\<rparr>, W3))"
proof (intro conjI allI impI)
  show "dm_config (fst (snd (initialize M W config))) = Some config"
    by (rule initialize_config)
next
  assume "dm_client M \<noteq> None"
  then have k: "snd (initialize M W config) = (M\<lparr>dm_config := Some config\<rparr>, W)"
    by (rule initialize_existing_client)
  from k show "dm_client (fst (snd (initialize M W config))) = dm_client M" by simp
  from k show "dm_db (fst (snd (initialize M W config))) = dm_db M" by simp
  from k show "snd (snd (initialize M W config)) = W" by simp
next
  fix d s and W2 W3 :: world
  assume h: "dm_client M = Some (Client d s) \<and> driver_for (dialect config) d \<and>
             close_failure W2 d = None"
  let ?M = "fst (snd (initialize M W config))"
  from h have "dm_client M \<noteq> None" by simp
  then have k: "?M = M\<lparr>dm_config := Some config\<rparr>"
    using initialize_existing_client[of M W config] by simp
  from h k have c: "dm_client ?M = Some (Client d s)" by simp
  from k have g: "dm_config ?M = Some config" by simp
  from h show "close ?M W2 =
      (Inr (), ?M\<lparr>dm_client := None, dm_db := None\<rparr>,
       emit (EvClose d (closing_method (dialect config))) W2)"
    using close_matching_client[OF c g] by simp
  show "close (?M\<lparr>dm_client := None, dm_db := None\<rparr>) W3 =
      (Inr (), ?M\<lparr>dm_client := None, dm_db := None\<rparr>, W3)"
    by (simp add: close_without_client)
qed

theorem initialize_first_client_last_config_witness:
  "fst (initialize sqlite_manager postgres_project postgres_config) = Inr ()
   \<and> dm_config (fst (snd (initialize sqlite_manager postgres_project postgres_config))) =
       Some postgres_config
   \<and> dm_client (fst (snd (initialize sqlite_manager postgres_project postgres_config))) =
       Some (Client BetterSqlite3 ''./database.db'')
   \<and> dm_db (fst (snd (initialize sqlite_manager postgres_project postgres_config))) =
       Some (Drizzle (Client BetterSqlite3 ''./database.db''))
   \<and> snd (snd (initialize sqlite_manager postgres_project postgres_config)) = postgres_project
   \<and> dm_config sqlite_manager = Some sqlite_config
   \<and> close (fst (snd (initialize sqlite_manager sqlite_project sqlite_config))) sqlite_project =
       (Inr (), sqlite_manager\<lparr>dm_client := None, dm_db := None\<rparr>,
        emit (EvClose BetterSqlite3 ''close'') sqlite_project)
   \<and> close (sqlite_manager\<lparr>dm_client := None, dm_db := None\<rparr>) sqlite_project =
       (Inr (), sqlite_manager\<lparr>dm_client := None, dm_db := None\<rparr>, sqlite_project)"
proof -
  have c: "dm_client sqlite_manager \<noteq> None"
    by (simp add: sqlite_manager_def)
  have r: "fst (initialize sqlite_manager postgres_project postgres_config) = Inr ()"
    by (simp add: manager_defs example_defs)
  from initialize_first_client_last_config[of sqlite_manager postgres_project postgres_config] c r
  have 1: "fst (initialize sqlite_manager postgres_project postgres_config) = Inr ()
   \<and> dm_config (fst (snd (initialize sqlite_manager postgres_project postgres_config))) =
       Some postgres_config
   \<and> dm_client (fst (snd (initialize sqlite_manager postgres_project postgres_config))) =
       Some (Client BetterSqlite3 ''./database.db'')
   \<and> dm_db (fst (snd (initialize sqlite_manager postgres_project postgres_config))) =
       Some (Drizzle (Client BetterSqlite3 ''./database.db''))
   \<and> snd (snd (initialize sqlite_manager postgres_project postgres_config)) = postgres_project
   \<and> dm_config sqlite_manager = Some sqlite_config"
    by (simp add: sqlite_manager_def)
  have a: "dm_client sqlite_manager = Some (Client BetterSqlite3 ''./database.db'')"
    by (simp add: sqlite_manager_def)
  have b: "driver_for (dialect sqlite_config) BetterSqlite3"
    by (simp add: driver_for_def sqlite_config_def)
  have f: "close_failure sqlite_project BetterSqlite3 = None"
    by (simp add: sqlite_project_def project_def)
  have m: "closing_method (dialect sqlite_config) = ''close''"
    by (simp add: closing_method_def sqlite_config_def)
  have i: "fst (snd (initialize sqlite_manager sqlite_project sqlite_config)) = sqlite_manager"
    using initialize_existing_client[OF c, of sqlite_project sqlite_config]
    by (simp add: sqlite_manager_def)
  from initialize_first_client_last_config[of sqlite_manager sqlite_project sqlite_config]
    a b f m i
  have 2: "close (fst (snd (initialize sqlite_manager sqlite_project sqlite_config)))
             sqlite_project =
       (Inr (), sqlite_manager\<lparr>dm_client := None, dm_db := None\<rparr>,
        emit (EvClose BetterSqlite3 ''close'') sqlite_project)
   \<and> close (sqlite_manager\<lparr>dm_client := None, dm_db := None\<rparr>) sqlite_project =
       (Inr (), sqlite_manager\<lparr>dm_client := None, dm_db := None\<rparr>, sqlite_project)"
    by auto
  from 1 2 show ?thesis by simp
qed

text \<open>
  C3: on an initialized sqlite database, \<open>executeQuery\<close> sends every statement through
  \<open>prepare(query).all(...)\<close>. A statement that returns no data, as an INSERT without a
  RETURNING clause, is refused by \<open>all\<close> with a TypeError, so the INSERT of the round trip
  does not complete; the PostgreSQL branch runs such a statement.
\<close>

theorem executeQuery_sqlite_statement_without_rows_fails:
  assumes "config_dialect M = Some ''sqlite''"
      and "dm_client M = Some (Client BetterSqlite3 s)"
      and "dm_db M = Some d"
      and "sql_compile W (db_state W) q = Inr False"
  shows "executeQuery M W q (JArr ps) =
           (Inl (TypeError ''This statement does not return data. Use run() instead''),
            emit (EvQuery BetterSqlite3 q ps) W)"
  using assms
  by (simp add: executeQuery_def getDb_def getClient_def length_positive_def spread_def
      sqlite_prepare_all_def emit_def Let_def)

theorem executeQuery_sqlite_statement_without_rows_fails_witness:
  "executeQuery sqlite_manager sqlite_project ''INSERT INTO t VALUES (1)'' (JArr []) =
     (Inl (TypeError ''This statement does not return data. Use run() instead''),
      emit (EvQuery BetterSqlite3 ''INSERT INTO t VALUES (1)'' []) sqlite_project)
   \<and> srv_databaseManager (fst (snd (callTool (new_DrizzleMCPServer ''/proj'') sqlite_project
         ''initialize_database'' (JObj [])))) = sqlite_manager
   \<and> fst (callTool (new_DrizzleMCPServer ''/proj'') sqlite_project ''execute_query''
         (JObj [(''query'', JStr ''INSERT INTO t VALUES (1)'')])) =
       \<lparr>content = [''Error: This statement does not return data. Use run() instead''],
        isError = True\<rparr>"
proof -
  have a: "config_dialect sqlite_manager = Some ''sqlite''"
    by (simp add: config_dialect_def example_defs)
  have b: "dm_client sqlite_manager = Some (Client BetterSqlite3 ''./database.db'')"
    by (simp add: example_defs)
  have c: "dm_db sqlite_manager = Some (Drizzle (Client BetterSqlite3 ''./database.db''))"
    by (simp add: example_defs)
  have d: "sql_compile sqlite_project (db_state sqlite_project) ''INSERT INTO t VALUES (1)'' =
             Inr False"
    by (simp add: example_defs project_def)
  have e: "srv_databaseManager (fst (snd (callTool (new_DrizzleMCPServer ''/proj'')
             sqlite_project ''initialize_database'' (JObj [])))) = sqlite_manager"
    by (simp add: server_defs manager_defs loader_defs schema_defs example_defs)
  have f: "fst (callTool (new_DrizzleMCPServer ''/proj'') sqlite_project ''execute_query''
         (JObj [(''query'', JStr ''INSERT INTO t VALUES (1)'')])) =
       \<lparr>content = [''Error: This statement does not return data. Use run() instead''],
        isError = True\<rparr>"
    by (simp add: server_defs manager_defs loader_defs schema_defs example_defs)
  from executeQuery_sqlite_statement_without_rows_fails[OF a b c d, of "[]"] e f
  show ?thesis by simp
qed

section \<open>The server: validation, subprocesses, error envelopes, resources\<close>

lemma validate_bad_name:
  assumes "\<forall>s. v = JStr s \<longrightarrow> s = [] \<or> (\<exists>c\<in>set s. \<not> is_name_char c)"
  shows "\<exists>m. validateMigrationName v = Inl (ValidationError m)"
  using assms by (cases v) (auto simp: name_pattern_def list_all_iff)

lemma destructure_cases:
  "(destructure p a = Inr a \<and> a \<noteq> JUndefined \<and> a \<noteq> JNull) \<or>
   ((a = JUndefined \<or> a = JNull) \<and> (\<exists>m. destructure p a = Inl (TypeError m)))"
  by (cases a) simp_all

text \<open>
  C7, as stated, fails in the kind of the error: a call that carries no arguments has
  no string as \<open>name\<close>, and what it fails with is the TypeError of destructuring
  \<open>undefined\<close>, not the validation error; \<open>validateMigrationName\<close> is not reached.
\<close>

theorem generate_migration_without_arguments_is_no_validation_error:
  "get_prop JUndefined ''name'' = JUndefined
   \<and> handleGenerateMigration (new_DrizzleMCPServer ''/proj'') sqlite_project JUndefined =
       (Inl (TypeError (''Cannot destructure property '' @ sq ''name'' @ '' of '' @ sq ''args'' @
                        '' as it is undefined.'')),
        new_DrizzleMCPServer ''/proj'', sqlite_project)
   \<and> callTool (new_DrizzleMCPServer ''/proj'') sqlite_project ''drizzle_generate_migration''
        JUndefined =
       (\<lparr>content = [''Error: Cannot destructure property '' @ sq ''name'' @ '' of '' @
                     sq ''args'' @ '' as it is undefined.''],
         isError = True\<rparr>,
        new_DrizzleMCPServer ''/proj'', sqlite_project)"
  by (simp add: handleGenerateMigration_def callTool_def dispatchTool_def error_response_def)

text \<open>
  C7, amended: when the \<open>name\<close> argument of \<open>drizzle_generate_migration\<close> is not a string,
  is empty or has a character outside \<open>[a-zA-Z0-9_-]\<close>, the handler throws before it does
  anything else: the tool call answers with the error response, and the server and the
  world (its trace of subprocesses included) are those it was given. The error is the
  validation error whenever the call has an arguments object at all, and the TypeError
  of the destructuring otherwise.
\<close>

theorem generate_migration_validates_before_spawning:
  assumes "\<forall>s. get_prop args ''name'' = JStr s \<longrightarrow> s = [] \<or> (\<exists>c\<in>set s. \<not> is_name_char c)"
  shows "\<exists>e. handleGenerateMigration S W args = (Inl e, S, W)
           \<and> callTool S W ''drizzle_generate_migration'' args = (error_response e, S, W)
           \<and> (args \<noteq> JUndefined \<and> args \<noteq> JNull \<longrightarrow> (\<exists>m. e = ValidationError m))"
proof -
  from validate_bad_name[OF assms] obtain m where
    v: "validateMigrationName (get_prop args ''name'') = Inl (ValidationError m)"
    by blast
  from destructure_cases[of "''name''" args] show ?thesis
  proof
    assume "destructure ''name'' args = Inr args \<and> args \<noteq> JUndefined \<and> args \<noteq> JNull"
    with v show ?thesis
      by (simp add: handleGenerateMigration_def callTool_def dispatchTool_def)
  next
    assume "(args = JUndefined \<or> args = JNull) \<and>
            (\<exists>m. destructure ''name'' args = Inl (TypeError m))"
    then show ?thesis
      by (auto simp add: handleGenerateMigration_def callTool_def dispatchTool_def)
  qed
qed

theorem generate_migration_validates_before_spawning_witness:
  "callTool (new_DrizzleMCPServer ''/proj'') sqlite_project ''drizzle_generate_migration''
      (JObj [(''name'', JStr ''add users; rm -rf /'')]) =
     (\<lparr>content =
         [''Error: Migration name can only contain letters, numbers, hyphens, and underscores''],
       isError = True\<rparr>, new_DrizzleMCPServer ''/proj'', sqlite_project)
   \<and> trace sqlite_project = []"
proof -
  have h: "\<forall>s. get_prop (JObj [(''name'', JStr ''add users; rm -rf /'')]) ''name'' = JStr s \<longrightarrow>
             s = [] \<or> (\<exists>c\<in>set s. \<not> is_name_char c)"
    by (simp add: is_name_char_def)
  from generate_migration_validates_before_spawning[OF h, of "new_DrizzleMCPServer ''/proj''"
         sqlite_project]
  show ?thesis
    by (auto simp add: handleGenerateMigration_def name_pattern_def is_name_char_def
        error_response_def sqlite_project_def project_def)
qed

text \<open>
  C5: the \<open>--config\<close> argument is the \<open>config\<close> argument as given, or the fixed name
  \<open>drizzle.config.ts\<close>, not the path the loader resolved. With only
  \<open>/proj/drizzle.config.js\<close> in the working directory the configuration is auto-detected
  there and the command names \<open>drizzle.config.ts\<close>; with the relative argument
  \<open>sub/drizzle.config.ts\<close> the command runs in \<open>/proj/sub\<close> and names
  \<open>sub/drizzle.config.ts\<close> again. The working directory is the configuration's directory.
\<close>

theorem migration_command_config_argument:
  "last (trace (snd (snd (callTool (new_DrizzleMCPServer ''/proj'') js_project
            ''drizzle_run_migrations'' (JObj []))))) =
     EvExec ''npx drizzle-kit migrate --config=drizzle.config.ts'' ''/proj''
   \<and> cl_configPath (srv_configLoader (fst (snd (callTool (new_DrizzleMCPServer ''/proj'')
            js_project ''drizzle_run_migrations'' (JObj []))))) =
     Some ''/proj/drizzle.config.js''
   \<and> last (trace (snd (snd (callTool (new_DrizzleMCPServer ''/proj'') sub_project
            ''drizzle_run_migrations'' (JObj [(''config'', JStr ''sub/drizzle.config.ts'')]))))) =
     EvExec ''npx drizzle-kit migrate --config=sub/drizzle.config.ts'' ''/proj/sub''
   \<and> cl_configPath (srv_configLoader (fst (snd (callTool (new_DrizzleMCPServer ''/proj'')
            sub_project ''drizzle_run_migrations''
            (JObj [(''config'', JStr ''sub/drizzle.config.ts'')]))))) =
     Some ''/proj/sub/drizzle.config.ts''"
  by (simp add: server_defs manager_defs loader_defs schema_defs example_defs)

lemma ok_not_error: "\<not> isError (ok_response t)"
  by (simp add: ok_response_def)

lemma handleGenerateMigration_ok:
  "handleGenerateMigration S W a = (Inr r, S', W') \<Longrightarrow> \<not> isError r"
  by (auto simp: handleGenerateMigration_def ok_not_error split: sum.splits prod.splits)

lemma handleRunMigrations_ok:
  "handleRunMigrations S W a = (Inr r, S', W') \<Longrightarrow> \<not> isError r"
  by (auto simp: handleRunMigrations_def ok_not_error split: sum.splits prod.splits)

lemma handleIntrospectSchema_ok:
  "handleIntrospectSchema S W a = (Inr r, S', W') \<Longrightarrow> \<not> isError r"
  by (auto simp: handleIntrospectSchema_def ok_not_error split: sum.splits prod.splits)

lemma handleExecuteQuery_ok:
  "handleExecuteQuery S W a = (Inr r, S', W') \<Longrightarrow> \<not> isError r"
  by (auto simp: handleExecuteQuery_def ok_not_error split: sum.splits prod.splits)

lemma handleInitializeDatabase_ok:
  "handleInitializeDatabase S W a = (Inr r, S', W') \<Longrightarrow> \<not> isError r"
  by (auto simp: handleInitializeDatabase_def ok_not_error split: sum.splits prod.splits)

lemma dispatchTool_ok:
  "dispatchTool S W n a = (Inr r, S', W') \<Longrightarrow> \<not> isError r"
  unfolding dispatchTool_def
  by (auto split: if_splits dest: handleGenerateMigration_ok handleRunMigrations_ok
      handleIntrospectSchema_ok handleExecuteQuery_ok handleInitializeDatabase_ok)

lemma dispatchTool_unknown:
  "n \<notin> set tool_names \<Longrightarrow> dispatchTool S W n a = (Inl (UnknownTool n), S, W)"
  by (simp add: tool_names_def dispatchTool_def)

text \<open>
  C8: a tool call always answers with a response. When the handler (or the switch, for
  a name that is no tool) throws \<open>e\<close>, the response is the text \<open>Error: \<close> followed by the
  message of \<open>e\<close> with \<open>isError\<close> set; a handler that returns never sets \<open>isError\<close>. A
  resource read that fails returns no response but an error: the error of loading the
  configuration as it is, an error of the switch, the unknown URI included, inside a
  new one whose message names the URI and the cause.
\<close>

theorem tool_errors_enveloped_resource_errors_thrown:
  "(\<forall>e S' W'. dispatchTool S W n a = (Inl e, S', W') \<longrightarrow>
        callTool S W n a = (\<lparr>content = [''Error: '' @ message e], isError = True\<rparr>, S', W'))
   \<and> (\<forall>r S' W'. dispatchTool S W n a = (Inr r, S', W') \<longrightarrow>
        callTool S W n a = (r, S', W') \<and> \<not> isError r)
   \<and> (n \<notin> set tool_names \<longrightarrow>
        callTool S W n a =
          (\<lparr>content = [''Error: Unknown tool: '' @ n], isError = True\<rparr>, S, W))
   \<and> (\<forall>e S1 W1. ensure_config S W = (Inl e, S1, W1) \<longrightarrow>
        readResource R S W uri = (Inl e, S1, W1))
   \<and> (\<forall>e S1 W1 W2. ensure_config S W = (Inr (), S1, W1) \<and>
                     resourceSwitch R S1 W1 uri = (Inl e, W2) \<longrightarrow>
        readResource R S W uri = (Inl (ReadResourceFailed uri e), S1, W2))
   \<and> (\<forall>S1 W1. ensure_config S W = (Inr (), S1, W1) \<and> uri \<noteq> TABLES R \<and> uri \<noteq> SCHEMA R \<longrightarrow>
        readResource R S W uri =
          (Inl (ReadResourceFailed uri (UnknownResource uri [TABLES R, SCHEMA R])), S1, W1))
   \<and> message (ReadResourceFailed uri (UnknownResource uri [TABLES R, SCHEMA R])) =
        ''Failed to read resource '' @ sq uri @ '': Unknown resource URI: '' @ uri @
        ''. Available resources: '' @ TABLES R @ '', '' @ SCHEMA R"
proof (intro conjI allI impI)
  fix e S' W'
  assume "dispatchTool S W n a = (Inl e, S', W')"
  then show "callTool S W n a =
               (\<lparr>content = [''Error: '' @ message e], isError = True\<rparr>, S', W')"
    by (simp add: callTool_def error_response_def)
next
  fix r S' W'
  assume h: "dispatchTool S W n a = (Inr r, S', W')"
  then show "callTool S W n a = (r, S', W')"
    by (simp add: callTool_def)
  from h show "\<not> isError r"
    by (rule dispatchTool_ok)
next
  assume "n \<notin> set tool_names"
  then show "callTool S W n a =
               (\<lparr>content = [''Error: Unknown tool: '' @ n], isError = True\<rparr>, S, W)"
    by (simp add: callTool_def error_response_def dispatchTool_unknown)
next
  fix e S1 W1
  assume "ensure_config S W = (Inl e, S1, W1)"
  then show "readResource R S W uri = (Inl e, S1, W1)"
    by (simp add: readResource_def)
next
  fix e S1 W1 W2
  assume "ensure_config S W = (Inr (), S1, W1) \<and> resourceSwitch R S1 W1 uri = (Inl e, W2)"
  then show "readResource R S W uri = (Inl (ReadResourceFailed uri e), S1, W2)"
    by (simp add: readResource_def)
next
  fix S1 W1
  assume "ensure_config S W = (Inr (), S1, W1) \<and> uri \<noteq> TABLES R \<and> uri \<noteq> SCHEMA R"
  then show "readResource R S W uri =
          (Inl (ReadResourceFailed uri (UnknownResource uri [TABLES R, SCHEMA R])), S1, W1)"
    by (simp add: readResource_def resourceSwitch_def)
next
  show "message (ReadResourceFailed uri (UnknownResource uri [TABLES R, SCHEMA R])) =
            ''Failed to read resource '' @ sq uri @ '': Unknown resource URI: '' @ uri @
            ''. Available resources: '' @ TABLES R @ '', '' @ SCHEMA R"
    by simp
qed

theorem tool_errors_enveloped_resource_errors_thrown_witness:
  "callTool (new_DrizzleMCPServer ''/proj'') sqlite_project ''drop_database'' (JObj []) =
     (\<lparr>content = [''Error: Unknown tool: drop_database''], isError = True\<rparr>,
      new_DrizzleMCPServer ''/proj'', sqlite_project)
   \<and> fst (readResource RESOURCE_URIS postgres_server postgres_project ''database://rows'') =
       Inl (ReadResourceFailed ''database://rows''
              (UnknownResource ''database://rows'' [''database://tables'', ''database://schema'']))
   \<and> fst (readResource RESOURCE_URIS (new_DrizzleMCPServer ''/proj'')
              (project [] sqlite_example sqlite_drivers) ''database://tables'') = Inl NoConfigFound
   \<and> fst (callTool (new_DrizzleMCPServer ''/proj'') (project [] sqlite_example sqlite_drivers)
              ''execute_query'' (JObj [(''query'', JStr ''SELECT 1'')])) =
       \<lparr>content = [''Error: No drizzle config file found. Please specify a config path or create drizzle.config.ts''],
        isError = True\<rparr>
   \<and> \<not> isError (fst (callTool (new_DrizzleMCPServer ''/proj'') sqlite_project
              ''execute_query'' (JObj [(''query'', JStr ''SELECT 1'')])))"
proof -
  let ?S = "new_DrizzleMCPServer ''/proj''"
  let ?E = "project [] sqlite_example sqlite_drivers"
  let ?q = "JObj [(''query'', JStr ''SELECT 1'')]"
  note T = tool_errors_enveloped_resource_errors_thrown
  have n: "''drop_database'' \<notin> set tool_names"
    by (simp add: tool_names_def)
  have 1: "callTool ?S sqlite_project ''drop_database'' (JObj []) =
     (\<lparr>content = [''Error: Unknown tool: drop_database''], isError = True\<rparr>, ?S, sqlite_project)"
    using T[of ?S sqlite_project "''drop_database''" "JObj []"] n by simp
  have e2: "ensure_config postgres_server postgres_project =
              (Inr (), postgres_server, postgres_project)"
    by (simp add: ensure_config_def postgres_server_def)
  have u: "''database://rows'' \<noteq> TABLES RESOURCE_URIS" "''database://rows'' \<noteq> SCHEMA RESOURCE_URIS"
    by (simp_all add: RESOURCE_URIS_def)
  have 2: "fst (readResource RESOURCE_URIS postgres_server postgres_project ''database://rows'') =
       Inl (ReadResourceFailed ''database://rows''
              (UnknownResource ''database://rows'' [''database://tables'', ''database://schema'']))"
    using T[of postgres_server postgres_project _ _ RESOURCE_URIS "''database://rows''"] e2 u
    by (simp add: RESOURCE_URIS_def)
  have e3: "ensure_config ?S ?E =
      (Inl NoConfigFound, ?S, emit (EvExists ''/proj/drizzle.config.mjs'')
        (emit (EvExists ''/proj/drizzle.config.js'') (emit (EvExists ''/proj/drizzle.config.ts'') ?E)))"
    by (simp add: server_defs loader_defs)
  have 3: "fst (readResource RESOURCE_URIS ?S ?E ''database://tables'') = Inl NoConfigFound"
    using T[of ?S ?E _ _ RESOURCE_URIS "''database://tables''"] e3 by simp
  have d4: "dispatchTool ?S ?E ''execute_query'' ?q =
      (Inl NoConfigFound, ?S, emit (EvExists ''/proj/drizzle.config.mjs'')
        (emit (EvExists ''/proj/drizzle.config.js'') (emit (EvExists ''/proj/drizzle.config.ts'') ?E)))"
    by (simp add: server_defs loader_defs)
  have 4: "fst (callTool ?S ?E ''execute_query'' ?q) =
       \<lparr>content = [''Error: No drizzle config file found. Please specify a config path or create drizzle.config.ts''],
        isError = True\<rparr>"
    using T[of ?S ?E "''execute_query''" ?q] d4 by simp
  obtain r S' W' where d5: "dispatchTool ?S sqlite_project ''execute_query'' ?q = (Inr r, S', W')"
    by (simp add: server_defs manager_defs loader_defs schema_defs example_defs)
  have 5: "\<not> isError (fst (callTool ?S sqlite_project ''execute_query'' ?q))"
    using T[of ?S sqlite_project "''execute_query''" ?q] d5 by simp
  from 1 2 3 4 5 show ?thesis by simp
qed

text \<open>
  C4, as stated, fails: the rows of the schema resource have the fields \<open>name\<close> and
  \<open>sql\<close>, there is no field \<open>ddl\<close>, and the PostgreSQL placeholder ends in a semicolon.
\<close>

theorem schema_resource_rows_are_not_name_ddl:
  "fst (readResource RESOURCE_URIS (new_DrizzleMCPServer ''/proj'') postgres_project
          ''database://schema'') =
     Inr (resource_json ''database://schema''
            [[(''name'', JStr ''t''), (''sql'', JStr ''CREATE TABLE t (...);'')]])
   \<and> fst (readResource RESOURCE_URIS (new_DrizzleMCPServer ''/proj'') sqlite_project
          ''database://schema'') =
     Inr (resource_json ''database://schema''
            [[(''name'', JStr ''t''), (''sql'', JStr ''CREATE TABLE t(id INTEGER)'')]])"
  by (simp add: server_defs manager_defs loader_defs schema_defs example_defs)

lemma sqlite_schema_keys: "\<forall>r\<in>set (sqlite_schema db). map fst r = [''name'', ''sql'']"
  by (auto simp: sqlite_schema_def)

lemma pg_schema_rows:
  "\<forall>r\<in>set (pg_public_schema db).
     \<exists>t. r = [(''name'', JStr t), (''sql'', JStr (''CREATE TABLE '' @ t @ '' (...);''))]"
  by (auto simp: pg_public_schema_def)

lemma pg_schema_keys: "\<forall>r\<in>set (pg_public_schema db). map fst r = [''name'', ''sql'']"
  using pg_schema_rows[of db] by auto

lemma catalog_refusal_emit [simp]: "catalog_refusal d (emit e W) q = catalog_refusal d W q"
  by (cases d) (auto simp: catalog_refusal_def emit_def split: sum.splits)

lemma db_state_emit [simp]: "db_state (emit e W) = db_state W"
  by (simp add: emit_def)

lemma getSchema_sqlite:
  assumes "config_dialect M = Some ''sqlite''"
      and "dm_client M = Some (Client BetterSqlite3 s)"
  shows "getSchema M W =
           (case catalog_refusal BetterSqlite3 W sqlite_schema_statement of
              Some e \<Rightarrow> Inl e
            | None \<Rightarrow> Inr (sqlite_schema (db_state W)),
            emit (EvDumpSchema BetterSqlite3) W)"
  using assms
  by (simp add: getSchema_def getClient_def catalog_call_def Let_def split: option.splits)

lemma getSchema_postgresql:
  assumes "config_dialect M = Some ''postgresql''"
      and "dm_client M = Some (Client d s)"
      and "d \<noteq> BetterSqlite3"
  shows "getSchema M W =
           (case catalog_refusal d W pg_schema_statement of
              Some e \<Rightarrow> Inl e
            | None \<Rightarrow> Inr (pg_public_schema (db_state W)),
            emit (EvDumpSchema d) W)"
  using assms
  by (cases d)
     (simp_all add: getSchema_def getClient_def catalog_call_def Let_def split: option.splits)

lemma getSchema_by_dialect:
  assumes "dm_client M = Some (Client d s)"
      and "(config_dialect M = Some ''sqlite'' \<and> d = BetterSqlite3) \<or>
           (config_dialect M = Some ''postgresql'' \<and> d \<noteq> BetterSqlite3)"
  shows "getSchema M W =
           (case catalog_refusal d W (schema_statement M) of
              Some e \<Rightarrow> Inl e
            | None \<Rightarrow> Inr (if config_dialect M = Some ''sqlite''
                            then sqlite_schema (db_state W)
                            else pg_public_schema (db_state W)),
            emit (EvDumpSchema d) W)"
  using assms getSchema_sqlite[of M s W] getSchema_postgresql[of M d s W]
  by (auto simp: schema_statement_def)

text \<open>
  C4, amended: with a configuration loaded and a client of the configured dialect, the
  read of the schema resource hands the driver the catalog statement. When the driver
  runs it, the read returns the JSON text of an array of objects that each have exactly
  the fields \<open>name\<close> and \<open>sql\<close>, in this order; for \<open>postgresql\<close> the \<open>sql\<close> of every entry is
  \<open>CREATE TABLE \<close>, the entry's name and \<open> (...);\<close>. When the driver refuses it, the read
  fails with the driver's error inside the error of the read.
\<close>

theorem schema_resource_rows:
  assumes "srv_config S \<noteq> None"
      and "TABLES R \<noteq> SCHEMA R"
      and "dm_client (srv_databaseManager S) = Some (Client d s)"
      and "(config_dialect (srv_databaseManager S) = Some ''sqlite'' \<and> d = BetterSqlite3) \<or>
           (config_dialect (srv_databaseManager S) = Some ''postgresql'' \<and> d \<noteq> BetterSqlite3)"
  shows "(catalog_refusal d W (schema_statement (srv_databaseManager S)) = None \<longrightarrow>
            (\<exists>rows. readResource R S W (SCHEMA R) =
                  (Inr \<lparr>rc_uri = SCHEMA R, rc_mimeType = ''application/json'',
                        rc_text = JSON_stringify (JArr (map JObj rows))\<rparr>,
                   S, emit (EvDumpSchema d) W)
               \<and> (\<forall>r\<in>set rows. map fst r = [''name'', ''sql''])
               \<and> (config_dialect (srv_databaseManager S) = Some ''postgresql'' \<longrightarrow>
                    (\<forall>r\<in>set rows. \<exists>t. r = [(''name'', JStr t),
                              (''sql'', JStr (''CREATE TABLE '' @ t @ '' (...);''))]))))
       \<and> (\<forall>e. catalog_refusal d W (schema_statement (srv_databaseManager S)) = Some e \<longrightarrow>
            readResource R S W (SCHEMA R) =
              (Inl (ReadResourceFailed (SCHEMA R) e), S, emit (EvDumpSchema d) W))"
proof -
  let ?M = "srv_databaseManager S"
  let ?rows = "if config_dialect ?M = Some ''sqlite'' then sqlite_schema (db_state W)
               else pg_public_schema (db_state W)"
  have e: "ensure_config S W = (Inr (), S, W)"
    using assms(1) by (auto simp: ensure_config_def)
  note g = getSchema_by_dialect[OF assms(3,4), of W]
  have keys: "\<forall>r\<in>set ?rows. map fst r = [''name'', ''sql'']"
    using sqlite_schema_keys[of "db_state W"] pg_schema_keys[of "db_state W"] by simp
  have pg: "config_dialect ?M = Some ''postgresql'' \<longrightarrow>
              (\<forall>r\<in>set ?rows. \<exists>t. r = [(''name'', JStr t),
                              (''sql'', JStr (''CREATE TABLE '' @ t @ '' (...);''))])"
    using pg_schema_rows[of "db_state W"] by simp
  have ok: "catalog_refusal d W (schema_statement ?M) = None \<longrightarrow>
            readResource R S W (SCHEMA R) =
              (Inr \<lparr>rc_uri = SCHEMA R, rc_mimeType = ''application/json'',
                    rc_text = JSON_stringify (JArr (map JObj ?rows))\<rparr>,
               S, emit (EvDumpSchema d) W)"
    using e g assms(2)
    by (simp add: readResource_def resourceSwitch_def resource_json_def rows_json_def)
  have bad: "\<forall>e. catalog_refusal d W (schema_statement ?M) = Some e \<longrightarrow>
            readResource R S W (SCHEMA R) =
              (Inl (ReadResourceFailed (SCHEMA R) e), S, emit (EvDumpSchema d) W)"
    using e g assms(2)
    by (simp add: readResource_def resourceSwitch_def)
  from ok keys pg bad show ?thesis by blast
qed

theorem schema_resource_rows_witness:
  "postgres_server = fst (snd (callTool (new_DrizzleMCPServer ''/proj'') postgres_project
       ''initialize_database'' (JObj [])))
   \<and> (\<exists>rows. readResource RESOURCE_URIS postgres_server postgres_project ''database://schema'' =
                  (Inr \<lparr>rc_uri = ''database://schema'', rc_mimeType = ''application/json'',
                        rc_text = JSON_stringify (JArr (map JObj rows))\<rparr>,
                   postgres_server, emit (EvDumpSchema PostgresJs) postgres_project)
           \<and> list_all (\<lambda>r. map fst r = [''name'', ''sql'']) rows)
   \<and> fst (readResource RESOURCE_URIS postgres_server postgres_project ''database://schema'') =
     Inr (resource_json ''database://schema''
            [[(''name'', JStr ''t''), (''sql'', JStr ''CREATE TABLE t (...);'')]])
   \<and> readResource RESOURCE_URIS postgres_server refusing_project ''database://schema'' =
       (Inl (ReadResourceFailed ''database://schema'' (DriverError ''connection refused'')),
        postgres_server, emit (EvDumpSchema PostgresJs) refusing_project)"
proof -
  let ?M = "srv_databaseManager postgres_server"
  have a: "srv_config postgres_server \<noteq> None"
    by (simp add: postgres_server_def)
  have b: "TABLES RESOURCE_URIS \<noteq> SCHEMA RESOURCE_URIS"
    by (simp add: RESOURCE_URIS_def)
  have c: "dm_client ?M = Some (Client PostgresJs ''postgresql://u:p@localhost:5432/d'')"
    by (simp add: postgres_server_def)
  have d: "(config_dialect ?M = Some ''sqlite'' \<and> PostgresJs = BetterSqlite3) \<or>
           (config_dialect ?M = Some ''postgresql'' \<and> PostgresJs \<noteq> BetterSqlite3)"
    by (simp add: postgres_server_def config_dialect_def postgres_config_def)
  have e: "postgres_server = fst (snd (callTool (new_DrizzleMCPServer ''/proj'') postgres_project
       ''initialize_database'' (JObj [])))"
    by (simp add: postgres_server_def server_defs manager_defs loader_defs schema_defs
        example_defs)
  have f: "fst (readResource RESOURCE_URIS postgres_server postgres_project
                  ''database://schema'') =
     Inr (resource_json ''database://schema''
            [[(''name'', JStr ''t''), (''sql'', JStr ''CREATE TABLE t (...);'')]])"
    by (simp add: postgres_server_def server_defs manager_defs example_defs project_def
        emit_def Let_def)
  have runs: "catalog_refusal PostgresJs postgres_project (schema_statement ?M) = None"
    by (simp add: catalog_refusal_def postgres_project_def project_def)
  have refuses: "catalog_refusal PostgresJs refusing_project (schema_statement ?M) =
                   Some (DriverError ''connection refused'')"
    by (simp add: catalog_refusal_def refusing_project_def)
  have s: "SCHEMA RESOURCE_URIS = ''database://schema''"
    by (simp add: RESOURCE_URIS_def)
  from schema_resource_rows[OF a b c d, of postgres_project] runs obtain rows where
    r: "readResource RESOURCE_URIS postgres_server postgres_project (SCHEMA RESOURCE_URIS) =
                  (Inr \<lparr>rc_uri = SCHEMA RESOURCE_URIS, rc_mimeType = ''application/json'',
                        rc_text = JSON_stringify (JArr (map JObj rows))\<rparr>,
                   postgres_server, emit (EvDumpSchema PostgresJs) postgres_project)"
    and k: "\<forall>r\<in>set rows. map fst r = [''name'', ''sql'']"
    by blast
  from r k s have 1: "\<exists>rows.
      readResource RESOURCE_URIS postgres_server postgres_project ''database://schema'' =
                  (Inr \<lparr>rc_uri = ''database://schema'', rc_mimeType = ''application/json'',
                        rc_text = JSON_stringify (JArr (map JObj rows))\<rparr>,
                   postgres_server, emit (EvDumpSchema PostgresJs) postgres_project)
           \<and> list_all (\<lambda>r. map fst r = [''name'', ''sql'']) rows"
    by (intro exI[of _ rows]) (simp add: list_all_iff)
  from schema_resource_rows[OF a b c d, of refusing_project] refuses s
  have 2: "readResource RESOURCE_URIS postgres_server refusing_project ''database://schema'' =
       (Inl (ReadResourceFailed ''database://schema'' (DriverError ''connection refused'')),
        postgres_server, emit (EvDumpSchema PostgresJs) refusing_project)"
    by simp
  from e f 1 2 show ?thesis by blast
qed

end
